theory Spec2Isabelle
  imports Complex_Main "HOL-Library.Word" "HOL-Library.Sublist"
begin

section \<open>Python values\<close>

text \<open>
  The plagiarism check of the assignment portal: text extraction
  (\<open>app/utils/file_utils.py\<close>), normalization (\<open>app/utils/text_processing.py\<close>) and the
  service that compares a submission with the other submissions of its course, grades it
  and stores the report (\<open>app/services/plagiarism_service.py\<close>). Functions keep the names
  of the source; a function that can raise returns \<open>exc + result\<close>, and a function that
  writes to the session returns the database after the commit.

  A Python \<open>str\<close> is a sequence of Unicode code points and is modelled as a list of
  natural numbers; \<open>bytes\<close> is a list of 8-bit words. \<open>lit\<close> turns an ASCII literal of the
  source into its code points. A Python \<open>float\<close> is modelled as the real number it
  denotes: comparisons and \<open>max\<close> are exact; the operations that round their result are
  the interpreter's and are parameters (see \<open>floats\<close> below).
\<close>

type_synonym byte = "8 word"
type_synonym pystr = "nat list"

definition lit :: "string \<Rightarrow> pystr" where
  "lit s = map of_char s"

text \<open>
  The character tables of the Python runtime are written out for ASCII. For code points
  from 128 on they are the runtime's Unicode database, which is not part of the repository
  and is taken as a parameter: whitespace (\<open>str.isspace\<close>, \<open>\s\<close>), alphanumerics
  (\<open>str.isalnum\<close>, \<open>\w\<close> adds the underscore), decimal digits (\<open>\d\<close>), lower-casing of a
  whole string, and the case-insensitive equivalence of a pattern letter and a text
  character under \<open>re.IGNORECASE\<close>.
\<close>

record unicode =
  uni_space :: "nat \<Rightarrow> bool"
  uni_alnum :: "nat \<Rightarrow> bool"
  uni_decimal :: "nat \<Rightarrow> bool"
  uni_lower :: "pystr \<Rightarrow> pystr"
  uni_caseless :: "nat \<Rightarrow> nat \<Rightarrow> bool"

definition is_space :: "unicode \<Rightarrow> nat \<Rightarrow> bool" where
  "is_space U c =
     (if c < 128 then (9 \<le> c \<and> c \<le> 13) \<or> (28 \<le> c \<and> c \<le> 32) else uni_space U c)"

definition is_ascii_upper :: "nat \<Rightarrow> bool" where
  "is_ascii_upper c = (65 \<le> c \<and> c \<le> 90)"

definition is_ascii_alnum :: "nat \<Rightarrow> bool" where
  "is_ascii_alnum c = ((48 \<le> c \<and> c \<le> 57) \<or> (65 \<le> c \<and> c \<le> 90) \<or> (97 \<le> c \<and> c \<le> 122))"

definition is_alnum :: "unicode \<Rightarrow> nat \<Rightarrow> bool" where
  "is_alnum U c = (if c < 128 then is_ascii_alnum c else uni_alnum U c)"

definition is_word :: "unicode \<Rightarrow> nat \<Rightarrow> bool" where
  "is_word U c = (c = 95 \<or> is_alnum U c)"

definition is_digit :: "unicode \<Rightarrow> nat \<Rightarrow> bool" where
  "is_digit U c = (if c < 128 then 48 \<le> c \<and> c \<le> 57 else uni_decimal U c)"

definition ascii_lower :: "nat \<Rightarrow> nat" where
  "ascii_lower c = (if is_ascii_upper c then c + 32 else c)"

definition py_lower :: "unicode \<Rightarrow> pystr \<Rightarrow> pystr" where
  "py_lower U s = (if list_all (\<lambda>c. c < 128) s then map ascii_lower s else uni_lower U s)"

definition py_strip :: "unicode \<Rightarrow> pystr \<Rightarrow> pystr" where
  "py_strip U s = rev (dropWhile (is_space U) (rev (dropWhile (is_space U) s)))"

text \<open>\<open>str.split()\<close> with no argument: the maximal runs of non-whitespace characters.\<close>

fun split_ws :: "unicode \<Rightarrow> pystr \<Rightarrow> pystr \<Rightarrow> pystr list" where
  "split_ws U cur [] = (if cur = [] then [] else [cur])"
| "split_ws U cur (c # cs) =
     (if is_space U c then (if cur = [] then split_ws U [] cs else cur # split_ws U [] cs)
      else split_ws U (cur @ [c]) cs)"

definition py_split :: "unicode \<Rightarrow> pystr \<Rightarrow> pystr list" where
  "py_split U s = split_ws U [] s"

text \<open>\<open>str.isalnum()\<close>: non-empty and every character alphanumeric.\<close>

definition py_isalnum :: "unicode \<Rightarrow> pystr \<Rightarrow> bool" where
  "py_isalnum U s = (s \<noteq> [] \<and> list_all (is_alnum U) s)"

subsection \<open>Floating point\<close>

text \<open>
  The float operations of the interpreter that the code uses are not computed here, since
  each of them rounds to a binary float: the product and the quotient of two numbers,
  \<open>round(x, 2)\<close> and the format \<open>.2f\<close>. They are parameters, and a property of the code
  that needs a fact about them states that fact as a hypothesis.
\<close>

record floats =
  float_mul :: "real \<Rightarrow> real \<Rightarrow> real"
  float_div :: "real \<Rightarrow> real \<Rightarrow> real"
  float_round2 :: "real \<Rightarrow> real"
  float_format_2f :: "real \<Rightarrow> pystr"

subsection \<open>Exceptions\<close>

text \<open>
  An exception is its class and its message (the \<open>detail\<close> of the HTTP exceptions of
  \<open>app/core/exceptions.py\<close>). \<open>OtherException\<close> stands for any other subclass of
  \<open>Exception\<close> that a library raises.
\<close>

datatype exc_class =
  FileUploadError | PlagiarismCheckError | UnicodeDecodeError | ImportError
  | UnboundLocalError | TypeError | RemoteDisconnected | OtherException

datatype exc = Exc (exc_kind: exc_class) (exc_detail: pystr)

subsection \<open>Codecs\<close>

datatype encoding = Utf8 | Latin1 | Cp1252 | Iso8859_1

definition is_cont :: "nat \<Rightarrow> bool" where
  "is_cont c = (128 \<le> c \<and> c \<le> 191)"

text \<open>The strict UTF-8 decoder: no overlong forms, no surrogates, nothing above U+10FFFF.\<close>

fun utf8_dec :: "nat list \<Rightarrow> pystr option" where
  "utf8_dec [] = Some []"
| "utf8_dec (b # bs) =
     (if b < 128 then map_option ((#) b) (utf8_dec bs)
      else if 194 \<le> b \<and> b \<le> 223 then
        (case bs of
           c1 # r \<Rightarrow>
             if is_cont c1
             then map_option ((#) ((b - 192) * 64 + (c1 - 128))) (utf8_dec r)
             else None
         | _ \<Rightarrow> None)
      else if 224 \<le> b \<and> b \<le> 239 then
        (case bs of
           c1 # c2 # r \<Rightarrow>
             if is_cont c1 \<and> is_cont c2 \<and> (if b = 224 then 160 \<le> c1 else True) \<and> (if b = 237 then c1 \<le> 159 else True)
             then map_option ((#) ((b - 224) * 4096 + (c1 - 128) * 64 + (c2 - 128))) (utf8_dec r)
             else None
         | _ \<Rightarrow> None)
      else if 240 \<le> b \<and> b \<le> 244 then
        (case bs of
           c1 # c2 # c3 # r \<Rightarrow>
             if is_cont c1 \<and> is_cont c2 \<and> is_cont c3
                \<and> (if b = 240 then 144 \<le> c1 else True) \<and> (if b = 244 then c1 \<le> 143 else True)
             then map_option
                    ((#) ((b - 240) * 262144 + (c1 - 128) * 4096 + (c2 - 128) * 64 + (c3 - 128)))
                    (utf8_dec r)
             else None
         | _ \<Rightarrow> None)
      else None)"

text \<open>Windows-1252: five bytes are undefined, 27 bytes of 0x80..0x9F map outside Latin-1.\<close>

definition cp1252_char :: "nat \<Rightarrow> nat option" where
  "cp1252_char b =
     (if b < 128 \<or> 160 \<le> b then Some b
      else map_of
        [(0x80, 0x20AC), (0x82, 0x201A), (0x83, 0x0192), (0x84, 0x201E), (0x85, 0x2026),
         (0x86, 0x2020), (0x87, 0x2021), (0x88, 0x02C6), (0x89, 0x2030), (0x8A, 0x0160),
         (0x8B, 0x2039), (0x8C, 0x0152), (0x8E, 0x017D), (0x91, 0x2018), (0x92, 0x2019),
         (0x93, 0x201C), (0x94, 0x201D), (0x95, 0x2022), (0x96, 0x2013), (0x97, 0x2014),
         (0x98, 0x02DC), (0x99, 0x2122), (0x9A, 0x0161), (0x9B, 0x203A), (0x9C, 0x0153),
         (0x9E, 0x017E), (0x9F, 0x0178)] b)"

fun cp1252_dec :: "nat list \<Rightarrow> pystr option" where
  "cp1252_dec [] = Some []"
| "cp1252_dec (b # bs) =
     (case cp1252_char b of
        None \<Rightarrow> None
      | Some c \<Rightarrow> map_option ((#) c) (cp1252_dec bs))"

text \<open>\<open>bytes.decode(encoding)\<close>; \<open>None\<close> is \<open>UnicodeDecodeError\<close>.\<close>

fun decode :: "encoding \<Rightarrow> byte list \<Rightarrow> pystr option" where
  "decode Utf8 data = utf8_dec (map unat data)"
| "decode Latin1 data = Some (map unat data)"
| "decode Cp1252 data = cp1252_dec (map unat data)"
| "decode Iso8859_1 data = Some (map unat data)"

section \<open>Collaborators\<close>

text \<open>
  The libraries and services the code calls are parameters of the model:
  \<^item> \<open>pdf_pages\<close>: \<open>PdfReader(io.BytesIO(data)).pages\<close> with \<open>extract_text()\<close> of each page,
    or the exception raised on the way;
  \<^item> \<open>docx_paragraphs\<close>: \<open>Document(io.BytesIO(data)).paragraphs\<close> with the text of each;
  \<^item> \<open>word_tokenize\<close>: NLTK's tokenizer (it raises \<open>LookupError\<close> without its data);
  \<^item> \<open>tfidf_cosine\<close>: \<open>TfidfVectorizer.fit_transform\<close> on the documents followed by
    \<open>cosine_similarity\<close> of the first row against the others, flattened;
  \<^item> \<open>googlesearch\<close>: the \<open>search\<close> function of the \<open>googlesearch\<close> package, \<open>None\<close> when the
    package cannot be imported;
  \<^item> \<open>commit_error\<close>: the exception of \<open>Session.commit()\<close>, \<open>None\<close> when it succeeds;
  \<^item> \<open>utcnow_iso\<close>: \<open>datetime.utcnow().isoformat()\<close>;
  \<^item> \<open>exc_str\<close>: \<open>str(e)\<close> of an exception;
  \<^item> \<open>uni\<close>: the Unicode tables above;
  \<^item> \<open>fp\<close>: the float operations above.
\<close>

record search_result =
  sr_url :: pystr
  sr_title :: "pystr option"
  sr_description :: "pystr option"

record env =
  pdf_pages :: "byte list \<Rightarrow> exc + pystr list"
  docx_paragraphs :: "byte list \<Rightarrow> exc + pystr list"
  word_tokenize :: "pystr \<Rightarrow> exc + pystr list"
  tfidf_cosine :: "pystr list \<Rightarrow> exc + real list"
  googlesearch :: "(pystr \<Rightarrow> exc + search_result list) option"
  commit_error :: "exc option"
  utcnow_iso :: pystr
  exc_str :: "exc \<Rightarrow> pystr"
  uni :: unicode
  fp :: floats

section \<open>Text extractor (app/utils/file\_utils.py)\<close>

definition after_last_dot :: "pystr \<Rightarrow> pystr" where
  \<comment> \<open>\<open>filename.rsplit('.', 1)[1]\<close> for a filename that contains a dot\<close>
  "after_last_dot s = rev (takeWhile (\<lambda>c. c \<noteq> 46) (rev s))"

definition get_file_extension :: "unicode \<Rightarrow> pystr \<Rightarrow> pystr" where
  "get_file_extension U filename =
     (if 46 \<in> set filename then 46 # py_lower U (after_last_dot filename) else [])"

definition join_lines :: "pystr list \<Rightarrow> pystr" where
  \<comment> \<open>the loop \<open>text += part + "\n"\<close> from the empty string\<close>
  "join_lines parts = concat (map (\<lambda>p. p @ [10]) parts)"

definition convert_pdf_to_text :: "env \<Rightarrow> byte list \<Rightarrow> exc + pystr" where
  "convert_pdf_to_text E file_data =
     (case pdf_pages E file_data of
        Inl e \<Rightarrow> Inl (Exc FileUploadError (lit ''Failed to convert PDF: '' @ exc_str E e))
      | Inr pages \<Rightarrow> Inr (py_strip (uni E) (join_lines pages)))"

definition convert_docx_to_text :: "env \<Rightarrow> byte list \<Rightarrow> exc + pystr" where
  "convert_docx_to_text E file_data =
     (case docx_paragraphs E file_data of
        Inl e \<Rightarrow> Inl (Exc FileUploadError (lit ''Failed to convert DOCX: '' @ exc_str E e))
      | Inr paragraphs \<Rightarrow> Inr (py_strip (uni E) (join_lines paragraphs)))"

text \<open>The loop over the other encodings: the first one that decodes returns.\<close>

fun try_encodings :: "encoding list \<Rightarrow> byte list \<Rightarrow> pystr option" where
  "try_encodings [] file_data = None"
| "try_encodings (encoding # rest) file_data =
     (case decode encoding file_data of
        Some s \<Rightarrow> Some s
      | None \<Rightarrow> try_encodings rest file_data)"

definition convert_to_text :: "env \<Rightarrow> byte list \<Rightarrow> pystr \<Rightarrow> exc + pystr" where
  "convert_to_text E file_data filename =
     (let ext = get_file_extension (uni E) filename in
      if ext = lit ''.pdf'' then convert_pdf_to_text E file_data
      else if ext = lit ''.docx'' then convert_docx_to_text E file_data
      else if ext = lit ''.txt'' then
        (case decode Utf8 file_data of
           Some s \<Rightarrow> Inr s
         | None \<Rightarrow>
             (case try_encodings [Latin1, Cp1252, Iso8859_1] file_data of
                Some s \<Rightarrow> Inr s
              | None \<Rightarrow> Inl (Exc FileUploadError (lit ''Unable to decode text file''))))
      else Inl (Exc FileUploadError (lit ''Unsupported file type: '' @ ext)))"

section \<open>Regular expressions (the fragment of \<open>re\<close> the normalizer uses)\<close>

text \<open>
  Every pattern of the source is a sequence of items. An item is a character class under a
  greedy quantifier (\<open>Rep cls lo hi\<close> for \<open>{lo,hi}\<close>, no upper bound when \<open>hi\<close> is \<open>None\<close>) or a
  zero-width assertion, which sees the character before the position (\<open>None\<close> at the start
  of the text) and the rest of the text. \<open>rmatch\<close> is the backtracking matcher at one
  position: a quantifier first takes as many characters as it can and gives them back one
  by one; the result is the length of the first match found.
\<close>

datatype rx_item =
  Rep "nat \<Rightarrow> bool" nat "nat option"
  | Assert "nat option \<Rightarrow> pystr \<Rightarrow> bool"

fun first_some :: "'a option list \<Rightarrow> 'a option" where
  "first_some [] = None"
| "first_some (None # xs) = first_some xs"
| "first_some (Some x # xs) = Some x"

definition prev_after :: "nat option \<Rightarrow> pystr \<Rightarrow> nat \<Rightarrow> nat option" where
  \<comment> \<open>the character before the position reached after consuming \<open>n\<close> characters of \<open>s\<close>\<close>
  "prev_after prev s n = (if n = 0 then prev else Some (s ! (n - 1)))"

fun rmatch :: "rx_item list \<Rightarrow> nat option \<Rightarrow> pystr \<Rightarrow> nat option" where
  "rmatch [] prev s = Some 0"
| "rmatch (Assert a # items) prev s = (if a prev s then rmatch items prev s else None)"
| "rmatch (Rep cls lo hi # items) prev s =
     (let run = length (takeWhile cls s);
          top = (case hi of None \<Rightarrow> run | Some h \<Rightarrow> min h run)
      in first_some
           (map (\<lambda>n. map_option ((+) n) (rmatch items (prev_after prev s n) (drop n s)))
                (rev [lo ..< Suc top])))"

lemma first_some_Some: "first_some xs = Some y \<Longrightarrow> Some y \<in> set xs"
  by (induction xs rule: first_some.induct) auto

lemma rmatch_le: "rmatch items prev s = Some n \<Longrightarrow> n \<le> length s"
proof (induction items arbitrary: prev s n)
  case Nil
  then show ?case by simp
next
  case (Cons it items)
  show ?case
  proof (cases it)
    case (Assert a)
    with Cons show ?thesis by (auto split: if_splits)
  next
    case (Rep cls lo hi)
    define top where
      "top = (case hi of None \<Rightarrow> length (takeWhile cls s)
              | Some h \<Rightarrow> min h (length (takeWhile cls s)))"
    have top: "top \<le> length s"
      using length_takeWhile_le [of cls s] by (auto simp: top_def split: option.splits)
    let ?f = "\<lambda>k. map_option ((+) k) (rmatch items (prev_after prev s k) (drop k s))"
    from Cons.prems Rep have "first_some (map ?f (rev [lo ..< Suc top])) = Some n"
      by (simp add: Let_def top_def)
    then have "Some n \<in> ?f ` {lo ..< Suc top}"
      using first_some_Some by fastforce
    then obtain k where kin: "k \<in> {lo ..< Suc top}" and kf: "Some n = ?f k"
      by blast
    from kin have k: "k \<le> top" by simp
    from kf obtain m where m: "rmatch items (prev_after prev s k) (drop k s) = Some m" "n = k + m"
      by (cases "rmatch items (prev_after prev s k) (drop k s)") auto
    from Cons.IH [OF m(1)] have "m \<le> length s - k" by simp
    with k top m(2) show ?thesis by simp
  qed
qed

text \<open>
  \<open>re.sub(pattern, repl, text)\<close>: the leftmost matches, left to right, without overlap. An
  empty match is replaced too and the scan then moves one character on.
\<close>

function re_sub_from :: "rx_item list \<Rightarrow> pystr \<Rightarrow> nat option \<Rightarrow> pystr \<Rightarrow> pystr" where
  "re_sub_from items repl prev s =
     (case rmatch items prev s of
        None \<Rightarrow> (case s of [] \<Rightarrow> [] | c # cs \<Rightarrow> c # re_sub_from items repl (Some c) cs)
      | Some n \<Rightarrow>
          if n = 0
          then repl @ (case s of [] \<Rightarrow> [] | c # cs \<Rightarrow> c # re_sub_from items repl (Some c) cs)
          else repl @ re_sub_from items repl (prev_after prev s n) (drop n s))"
  by pat_completeness auto
termination
  by (relation "measure (\<lambda>(items, repl, prev, s). length s)") (auto dest: rmatch_le)

definition re_sub :: "rx_item list \<Rightarrow> pystr \<Rightarrow> pystr \<Rightarrow> pystr" where
  "re_sub items repl text = re_sub_from items repl None text"

subsection \<open>Pattern syntax\<close>

definition rx_one :: "(nat \<Rightarrow> bool) \<Rightarrow> rx_item" where
  "rx_one cls = Rep cls 1 (Some 1)"

definition rx_opt :: "(nat \<Rightarrow> bool) \<Rightarrow> rx_item" where
  \<comment> \<open>\<open>?\<close>\<close>
  "rx_opt cls = Rep cls 0 (Some 1)"

definition rx_star :: "(nat \<Rightarrow> bool) \<Rightarrow> rx_item" where
  \<comment> \<open>\<open>*\<close>\<close>
  "rx_star cls = Rep cls 0 None"

definition rx_plus :: "(nat \<Rightarrow> bool) \<Rightarrow> rx_item" where
  \<comment> \<open>\<open>+\<close>\<close>
  "rx_plus cls = Rep cls 1 None"

definition lit1 :: "char \<Rightarrow> nat \<Rightarrow> bool" where
  \<comment> \<open>a literal character\<close>
  "lit1 c x = (x = of_char c)"

definition not_lit1 :: "char \<Rightarrow> nat \<Rightarrow> bool" where
  \<comment> \<open>\<open>[^c]\<close>\<close>
  "not_lit1 c x = (x \<noteq> of_char c)"

definition ilit1 :: "unicode \<Rightarrow> char \<Rightarrow> nat \<Rightarrow> bool" where
  \<comment> \<open>a literal ASCII letter under \<open>re.IGNORECASE\<close>\<close>
  "ilit1 U c x =
     (if x < 128 then ascii_lower x = ascii_lower (of_char c) else uni_caseless U (of_char c) x)"

definition rx_lits :: "string \<Rightarrow> rx_item list" where
  "rx_lits s = map (\<lambda>c. rx_one (lit1 c)) s"

definition rx_ilits :: "unicode \<Rightarrow> string \<Rightarrow> rx_item list" where
  "rx_ilits U s = map (\<lambda>c. rx_one (ilit1 U c)) s"

definition dot :: "nat \<Rightarrow> bool" where
  \<comment> \<open>\<open>.\<close> without \<open>re.DOTALL\<close>: anything but a newline\<close>
  "dot x = (x \<noteq> 10)"

definition dot_all :: "nat \<Rightarrow> bool" where
  \<comment> \<open>\<open>.\<close> under \<open>re.DOTALL\<close>\<close>
  "dot_all x = True"

definition word_boundary :: "unicode \<Rightarrow> rx_item" where
  \<comment> \<open>\<open>\b\<close>\<close>
  "word_boundary U =
     Assert (\<lambda>prev s.
       (case prev of None \<Rightarrow> False | Some c \<Rightarrow> is_word U c)
       \<noteq> (case s of [] \<Rightarrow> False | c # _ \<Rightarrow> is_word U c))"

definition line_start :: rx_item where
  \<comment> \<open>\<open>^\<close> under \<open>re.MULTILINE\<close>\<close>
  "line_start = Assert (\<lambda>prev s. prev = None \<or> prev = Some 10)"

definition line_end :: rx_item where
  \<comment> \<open>\<open>$\<close> under \<open>re.MULTILINE\<close>\<close>
  "line_end = Assert (\<lambda>prev s. case s of [] \<Rightarrow> True | c # _ \<Rightarrow> c = 10)"

definition text_end :: rx_item where
  \<comment> \<open>\<open>$\<close> without \<open>re.MULTILINE\<close>: the end, or just before a final newline\<close>
  "text_end = Assert (\<lambda>prev s. s = [] \<or> s = [10])"

section \<open>Normalizer (app/utils/text\_processing.py)\<close>

definition tokenize_text :: "env \<Rightarrow> pystr \<Rightarrow> pystr list" where
  "tokenize_text E text =
     (case word_tokenize E (py_lower (uni E) text) of
        Inr tokens \<Rightarrow> tokens
      | Inl e \<Rightarrow> py_split (uni E) (py_lower (uni E) text))"

definition remove_references :: "unicode \<Rightarrow> pystr \<Rightarrow> pystr" where
  "remove_references U text0 =
     (let text1 = re_sub ([word_boundary U] @ rx_ilits U ''Reference''
                          @ [rx_opt (ilit1 U CHR ''s''), word_boundary U, rx_star dot_all, text_end])
                    [] text0;
          text2 = re_sub ([word_boundary U] @ rx_ilits U ''Bibliography''
                          @ [word_boundary U, rx_star dot_all, text_end])
                    [] text1;
          text3 = re_sub ([word_boundary U] @ rx_ilits U ''Works'' @ [rx_plus (is_space U)]
                          @ rx_ilits U ''Cited'' @ [word_boundary U, rx_star dot_all, text_end])
                    [] text2;
          text4 = re_sub [rx_one (lit1 CHR ''[''), rx_plus (is_digit U), rx_one (lit1 CHR '']'')]
                    [] text3;
          text5 = re_sub [rx_one (lit1 CHR ''(''), rx_plus (is_word U), rx_opt (lit1 CHR '',''),
                          rx_star (is_space U), Rep (is_digit U) 4 (Some 4), rx_one (lit1 CHR '')'')]
                    [] text4;
          text6 = re_sub ([rx_one (lit1 CHR ''(''), rx_plus (is_word U), rx_plus (is_space U)]
                          @ rx_lits ''et'' @ [rx_plus (is_space U)] @ rx_lits ''al.''
                          @ [rx_opt (lit1 CHR '',''), rx_star (is_space U),
                             Rep (is_digit U) 4 (Some 4), rx_one (lit1 CHR '')'')])
                    [] text5
      in py_strip U text6)"

definition remove_quotes :: "unicode \<Rightarrow> pystr \<Rightarrow> pystr" where
  "remove_quotes U text0 =
     (let text1 = re_sub [rx_one (lit1 CHR 0x22), rx_star (not_lit1 CHR 0x22), rx_one (lit1 CHR 0x22)]
                    [] text0;
          text2 = re_sub [rx_one (lit1 CHR 0x27), Rep (not_lit1 CHR 0x27) 10 None,
                          rx_one (lit1 CHR 0x27)]
                    [] text1;
          text3 = re_sub [line_start, rx_one (lit1 CHR ''>''), rx_star dot, line_end] [] text2
      in py_strip U text3)"

definition kept_char :: "unicode \<Rightarrow> nat \<Rightarrow> bool" where
  \<comment> \<open>the class \<open>[\w\s.,!?;:\-]\<close>\<close>
  "kept_char U x = (is_word U x \<or> is_space U x \<or> x \<in> set (lit ''.,!?;:-''))"

definition preprocess_document :: "unicode \<Rightarrow> pystr \<Rightarrow> bool \<Rightarrow> bool \<Rightarrow> pystr" where
  "preprocess_document U text0 remove_refs remove_quotes_flag =
     (let text1 = (if remove_refs then remove_references U text0 else text0);
          text2 = (if remove_quotes_flag then remove_quotes U text1 else text1);
          text3 = re_sub [rx_plus (is_space U)] (lit '' '') text2;
          text4 = re_sub [rx_one (\<lambda>x. \<not> kept_char U x)] [] text3
      in py_strip U text4)"

definition get_word_set :: "env \<Rightarrow> pystr \<Rightarrow> pystr set" where
  "get_word_set E text =
     set (filter (\<lambda>token. 2 < length token \<and> py_isalnum (uni E) token) (tokenize_text E text))"

section \<open>Database rows (app/db/models.py)\<close>

record user =
  Fname :: pystr
  Lname :: "pystr option"

record match =
  m_assignment_id :: int
  m_filename :: pystr
  m_user_name :: pystr
  m_similarity :: real

record external_source =
  es_url :: pystr
  es_title :: pystr
  es_snippet :: pystr

record report =
  r_assignment_id :: int
  r_filename :: pystr
  r_plagiarism_percentage :: real
  r_matches :: "match list"
  r_external_sources :: "external_source list"
  r_threshold :: "real option"
  r_passed :: bool
  r_checked_at :: pystr

datatype assignment_status = NotChecked | Checked | Pending

record assignment =
  a_id :: int
  a_filename :: pystr
  a_file_data :: "byte list"
  a_user :: user
  a_course :: pystr
  a_status :: assignment_status
  a_comment :: "pystr option"
  a_totalmarks :: "int option"
  a_obtmarks :: "int option"
  a_plagiarism_report :: "report option"
  a_plagiarism_percentage :: "real option"
  a_auto_graded :: bool

text \<open>The threshold column is a nullable float.\<close>

record question_file =
  q_course :: pystr
  q_plagiarism_threshold :: "real option"

text \<open>
  A table is the list of its rows in the order in which an unordered query returns them.
  \<open>a_id\<close> is the primary key.
\<close>

record database =
  assignments :: "assignment list"
  question_files :: "question_file list"

fun replace_row :: "int \<Rightarrow> assignment \<Rightarrow> assignment list \<Rightarrow> assignment list" where
  "replace_row i a' [] = []"
| "replace_row i a' (a # rows) = (if a_id a = i then a' # rows else a # replace_row i a' rows)"

definition store_assignment :: "database \<Rightarrow> assignment \<Rightarrow> database" where
  \<comment> \<open>the write of the modified row at a successful commit\<close>
  "store_assignment db a' = db\<lparr>assignments := replace_row (a_id a') a' (assignments db)\<rparr>"

section \<open>Numbers\<close>

definition DEFAULT_PLAGIARISM_THRESHOLD :: real where
  "DEFAULT_PLAGIARISM_THRESHOLD = 40"

definition max_default :: "real list \<Rightarrow> real \<Rightarrow> real" where
  \<comment> \<open>\<open>max(xs, default=d)\<close>\<close>
  "max_default xs d = (case xs of [] \<Rightarrow> d | x # rest \<Rightarrow> fold max rest x)"

definition sort_by_similarity :: "match list \<Rightarrow> match list" where
  \<comment> \<open>\<open>matches.sort(key=lambda x: x['similarity'], reverse=True)\<close>: descending and stable\<close>
  "sort_by_similarity ms = sort_key (\<lambda>m. - m_similarity m) ms"

section \<open>Plagiarism service (app/services/plagiarism\_service.py)\<close>

definition make_match :: "env \<Rightarrow> assignment \<Rightarrow> real \<Rightarrow> match" where
  "make_match E a similarity =
     \<lparr>m_assignment_id = a_id a,
      m_filename = a_filename a,
      m_user_name =
        py_strip (uni E)
          (Fname (a_user a) @ lit '' '' @ (case Lname (a_user a) of None \<Rightarrow> [] | Some l \<Rightarrow> l)),
      m_similarity = float_round2 (fp E) similarity\<rparr>"

subsection \<open>\<open>_fallback_comparison\<close>\<close>

fun fallback_loop :: "env \<Rightarrow> pystr set \<Rightarrow> assignment list \<Rightarrow> match list" where
  "fallback_loop E target_words [] = []"
| "fallback_loop E target_words (a # rest) =
     (case convert_to_text E (a_file_data a) (a_filename a) of
        Inl e \<Rightarrow> fallback_loop E target_words rest
      | Inr text0 \<Rightarrow>
          (let text = preprocess_document (uni E) text0 False False;
               words = get_word_set E text;
               intersection = card (target_words \<inter> words);
               union = card (target_words \<union> words)
           in if 0 < union then
                (let similarity =
                       float_mul (fp E) (float_div (fp E) (real intersection) (real union)) 100
                 in if 5 < similarity
                    then make_match E a similarity # fallback_loop E target_words rest
                    else fallback_loop E target_words rest)
              else fallback_loop E target_words rest))"

definition fallback_comparison :: "env \<Rightarrow> pystr \<Rightarrow> assignment list \<Rightarrow> match list" where
  "fallback_comparison E target_text assignments_list =
     sort_by_similarity (fallback_loop E (get_word_set E target_text) assignments_list)"

subsection \<open>\<open>_compare_with_assignments\<close>\<close>

text \<open>
  The first loop: \<open>idx\<close> is the position of the peer in the pool, counted from 1; a peer
  whose extraction raises is skipped, the others add their text to \<open>documents\<close> and
  themselves to \<open>assignment_map\<close> under \<open>idx\<close>.
\<close>

fun prepare_documents ::
  "env \<Rightarrow> bool \<Rightarrow> bool \<Rightarrow> nat \<Rightarrow> assignment list
    \<Rightarrow> pystr list \<times> (nat \<rightharpoonup> assignment) \<Rightarrow> pystr list \<times> (nat \<rightharpoonup> assignment)" where
  "prepare_documents E exclude_references exclude_quotes idx [] acc = acc"
| "prepare_documents E exclude_references exclude_quotes idx (a # rest) (documents, assignment_map) =
     (case convert_to_text E (a_file_data a) (a_filename a) of
        Inl e \<Rightarrow>
          prepare_documents E exclude_references exclude_quotes (Suc idx) rest
            (documents, assignment_map)
      | Inr text \<Rightarrow>
          prepare_documents E exclude_references exclude_quotes (Suc idx) rest
            (documents @ [preprocess_document (uni E) text exclude_references exclude_quotes],
             assignment_map(idx \<mapsto> a)))"

text \<open>The second loop, over \<open>enumerate(similarities, start=1)\<close>.\<close>

fun collect_matches :: "env \<Rightarrow> (nat \<rightharpoonup> assignment) \<Rightarrow> nat \<Rightarrow> real list \<Rightarrow> match list" where
  "collect_matches E assignment_map idx [] = []"
| "collect_matches E assignment_map idx (similarity # rest) =
     (case assignment_map idx of
        None \<Rightarrow> collect_matches E assignment_map (Suc idx) rest
      | Some a \<Rightarrow>
          (let similarity_percentage = float_mul (fp E) similarity 100
           in if 5 < similarity_percentage
              then make_match E a similarity_percentage
                     # collect_matches E assignment_map (Suc idx) rest
              else collect_matches E assignment_map (Suc idx) rest))"

definition compare_with_assignments ::
  "env \<Rightarrow> pystr \<Rightarrow> assignment list \<Rightarrow> bool \<Rightarrow> bool \<Rightarrow> match list" where
  "compare_with_assignments E target_text assignments_list exclude_references exclude_quotes =
     (case prepare_documents E exclude_references exclude_quotes 1 assignments_list
             ([target_text], Map.empty) of
        (documents, assignment_map) \<Rightarrow>
          if length documents \<le> 1 then []
          else
            (case tfidf_cosine E documents of
               Inl e \<Rightarrow> fallback_comparison E target_text assignments_list
             | Inr similarities \<Rightarrow>
                 sort_by_similarity (collect_matches E assignment_map 1 similarities)))"

subsection \<open>\<open>_check_external_sources\<close>\<close>

definition to_external_source :: "search_result \<Rightarrow> external_source" where
  "to_external_source r =
     \<lparr>es_url = sr_url r,
      es_title = (case sr_title r of None \<Rightarrow> sr_url r | Some title \<Rightarrow> if title = [] then sr_url r else title),
      es_snippet = take 220 (case sr_description r of None \<Rightarrow> [] | Some d \<Rightarrow> d)\<rparr>"

text \<open>
  Both imports are inside the \<open>try\<close>. When \<open>from googlesearch import search\<close> raises, the
  local name \<open>RemoteDisconnected\<close> is not bound yet, and evaluating the first handler
  \<open>except RemoteDisconnected\<close> raises \<open>UnboundLocalError\<close>, which no handler of this \<open>try\<close>
  catches.
\<close>

definition check_external_sources :: "env \<Rightarrow> pystr \<Rightarrow> exc + external_source list" where
  "check_external_sources E text =
     (case googlesearch E of
        None \<Rightarrow>
          Inl (Exc UnboundLocalError
                 (lit ''cannot access local variable 'RemoteDisconnected' where it is not associated with a value''))
      | Some search \<Rightarrow>
          (case search text of
             Inl e \<Rightarrow> if exc_kind e = RemoteDisconnected then Inr [] else Inr []
           | Inr results \<Rightarrow> Inr (map to_external_source results)))"

subsection \<open>\<open>_create_empty_report\<close>\<close>

definition create_empty_report ::
  "env \<Rightarrow> database \<Rightarrow> assignment \<Rightarrow> real option \<Rightarrow> exc + report \<times> database" where
  "create_empty_report E db a threshold =
     (let rep = \<lparr>r_assignment_id = a_id a,
                 r_filename = a_filename a,
                 r_plagiarism_percentage = 0,
                 r_matches = [],
                 r_external_sources = [],
                 r_threshold = threshold,
                 r_passed = True,
                 r_checked_at = utcnow_iso E\<rparr>;
          a' = a\<lparr>a_plagiarism_report := Some rep,
                 a_plagiarism_percentage := Some 0,
                 a_status := Checked\<rparr>
      in case commit_error E of
           Some e \<Rightarrow> Inl e
         | None \<Rightarrow> Inr (rep, store_assignment db a'))"

subsection \<open>\<open>check_plagiarism\<close>\<close>

definition auto_grade :: "floats \<Rightarrow> assignment \<Rightarrow> real \<Rightarrow> assignment" where
  \<comment> \<open>the four assignments under \<open>if max_similarity >= threshold\<close>\<close>
  "auto_grade F a max_similarity =
     a\<lparr>a_obtmarks := Some 0,
       a_totalmarks := Some 100,
       a_auto_graded := True,
       a_comment := Some (lit ''Automatic Grade: 0 (Plagiarism detected: ''
                          @ float_format_2f F max_similarity @ lit ''%)'')\<rparr>"

definition get_assignment :: "database \<Rightarrow> int \<Rightarrow> assignment option" where
  \<comment> \<open>\<open>query(Assignment).filter(Assignment.id == assignment_id).first()\<close>\<close>
  "get_assignment db assignment_id = find (\<lambda>a. a_id a = assignment_id) (assignments db)"

definition other_assignments :: "database \<Rightarrow> assignment \<Rightarrow> int \<Rightarrow> assignment list" where
  \<comment> \<open>the comparison pool: the rows of the same course with another id\<close>
  "other_assignments db a assignment_id =
     filter (\<lambda>b. a_course b = a_course a \<and> a_id b \<noteq> assignment_id) (assignments db)"

definition get_threshold :: "database \<Rightarrow> assignment \<Rightarrow> real option" where
  "get_threshold db a =
     (case find (\<lambda>q. q_course q = a_course a) (question_files db) of
        Some question_file \<Rightarrow> q_plagiarism_threshold question_file
      | None \<Rightarrow> Some DEFAULT_PLAGIARISM_THRESHOLD)"

text \<open>The body of the \<open>try\<close>; \<open>Inl\<close> is the exception that leaves it.\<close>

definition check_plagiarism_body ::
  "env \<Rightarrow> database \<Rightarrow> int \<Rightarrow> bool \<Rightarrow> bool \<Rightarrow> exc + report \<times> database" where
  "check_plagiarism_body E db assignment_id exclude_references exclude_quotes =
     (case get_assignment db assignment_id of
        None \<Rightarrow> Inl (Exc PlagiarismCheckError (lit ''Assignment not found''))
      | Some a \<Rightarrow>
          (let threshold = get_threshold db a;
               pool = other_assignments db a assignment_id
           in if pool = [] then create_empty_report E db a threshold
              else
                (case convert_to_text E (a_file_data a) (a_filename a) of
                   Inl e \<Rightarrow> Inl e
                 | Inr raw_text \<Rightarrow>
                     (let target_text =
                            preprocess_document (uni E) raw_text exclude_references exclude_quotes;
                          matches =
                            compare_with_assignments E target_text pool
                              exclude_references exclude_quotes
                      in case check_external_sources E raw_text of
                           Inl e \<Rightarrow> Inl e
                         | Inr external_sources \<Rightarrow>
                             (let max_similarity = max_default (map m_similarity matches) 0
                              in case threshold of
                                   None \<Rightarrow>
                                     Inl (Exc TypeError
                                            (lit ''< not supported between instances of float and NoneType''))
                                 | Some t \<Rightarrow>
                                     (let rep = \<lparr>r_assignment_id = assignment_id,
                                                 r_filename = a_filename a,
                                                 r_plagiarism_percentage =
                                                   float_round2 (fp E) max_similarity,
                                                 r_matches = matches,
                                                 r_external_sources = external_sources,
                                                 r_threshold = threshold,
                                                 r_passed = (max_similarity < t),
                                                 r_checked_at = utcnow_iso E\<rparr>;
                                          a1 = (if t \<le> max_similarity
                                                then auto_grade (fp E) a max_similarity else a);
                                          a2 = a1\<lparr>a_plagiarism_report := Some rep,
                                                  a_plagiarism_percentage :=
                                                    Some (float_round2 (fp E) max_similarity),
                                                  a_status := Checked\<rparr>
                                      in case commit_error E of
                                           Some e \<Rightarrow> Inl e
                                         | None \<Rightarrow> Inr (rep, store_assignment db a2)))))))"

text \<open>
  The handler \<open>except Exception\<close>: roll back (the database is unchanged) and raise
  \<open>PlagiarismCheckError\<close> with \<open>str(e)\<close> as detail.
\<close>

definition check_plagiarism ::
  "env \<Rightarrow> database \<Rightarrow> int \<Rightarrow> bool \<Rightarrow> bool \<Rightarrow> exc + report \<times> database" where
  "check_plagiarism E db assignment_id exclude_references exclude_quotes =
     (case check_plagiarism_body E db assignment_id exclude_references exclude_quotes of
        Inl e \<Rightarrow> Inl (Exc PlagiarismCheckError (exc_str E e))
      | Inr result \<Rightarrow> Inr result)"

section \<open>Example data\<close>

text \<open>
  Tables that know ASCII only, and an environment in which the PDF and DOCX readers reject
  their input, the NLTK data is missing, the vectorizer finds no vocabulary, the search
  finds nothing and the commit succeeds. The examples below change one collaborator at a
  time.

  The float operations of the examples are exact: the product and the quotient of the real
  numbers, and rounding of the exact value to two decimals, ties to even. They stand for
  the interpreter's operations in the examples only, whose rounded similarities (0, 40, 50
  and 100) are the floats the interpreter returns.
\<close>

definition round_half_even :: "real \<Rightarrow> int" where
  "round_half_even y =
     (let f = \<lfloor>y\<rfloor>; d = y - of_int f
      in if d < 1 / 2 then f else if 1 / 2 < d then f + 1 else if even f then f else f + 1)"

definition decimal_round2 :: "real \<Rightarrow> real" where
  "decimal_round2 x = of_int (round_half_even (x * 100)) / 100"

function show_nat :: "nat \<Rightarrow> pystr" where
  "show_nat n = (if n < 10 then [48 + n] else show_nat (n div 10) @ [48 + n mod 10])"
  by pat_completeness auto
termination
  by (relation "measure id") auto

definition decimal_format_2f :: "real \<Rightarrow> pystr" where
  "decimal_format_2f x =
     (let h = nat (round_half_even (\<bar>x\<bar> * 100))
      in (if x < 0 then lit ''-'' else []) @ show_nat (h div 100) @ lit ''.''
         @ [48 + (h mod 100) div 10, 48 + h mod 10])"

definition exact_floats :: floats where
  "exact_floats =
     \<lparr>float_mul = (\<lambda>x y. x * y), float_div = (\<lambda>x y. x / y),
      float_round2 = decimal_round2, float_format_2f = decimal_format_2f\<rparr>"

definition ascii_tables :: unicode where
  "ascii_tables =
     \<lparr>uni_space = (\<lambda>c. False), uni_alnum = (\<lambda>c. False), uni_decimal = (\<lambda>c. False),
      uni_lower = (\<lambda>s. s), uni_caseless = (\<lambda>p c. False)\<rparr>"

definition demo_env :: env where
  "demo_env =
     \<lparr>pdf_pages = (\<lambda>d. Inl (Exc OtherException (lit ''EOF marker not found''))),
      docx_paragraphs = (\<lambda>d. Inl (Exc OtherException (lit ''File is not a zip file''))),
      word_tokenize = (\<lambda>s. Inl (Exc OtherException (lit ''Resource punkt not found''))),
      tfidf_cosine = (\<lambda>docs. Inl (Exc OtherException (lit ''empty vocabulary''))),
      googlesearch = Some (\<lambda>q. Inr []),
      commit_error = None,
      utcnow_iso = lit ''2024-05-01T09:00:00'',
      exc_str = exc_detail,
      uni = ascii_tables,
      fp = exact_floats\<rparr>"

definition bytes_of :: "string \<Rightarrow> byte list" where
  "bytes_of s = map of_char s"

definition submission :: "int \<Rightarrow> string \<Rightarrow> byte list \<Rightarrow> assignment" where
  "submission i name data =
     \<lparr>a_id = i, a_filename = lit name, a_file_data = data,
      a_user = \<lparr>Fname = lit ''Ada'', Lname = None\<rparr>,
      a_course = lit ''CS101'', a_status = NotChecked, a_comment = None,
      a_totalmarks = None, a_obtmarks = None, a_plagiarism_report = None,
      a_plagiarism_percentage = None, a_auto_graded = False\<rparr>"

definition scores_env :: "real list \<Rightarrow> env" where
  \<comment> \<open>the vectorizer succeeds and these are the cosine similarities of the peers\<close>
  "scores_env similarities = demo_env\<lparr>tfidf_cosine := (\<lambda>docs. Inr similarities)\<rparr>"

definition course_db :: "assignment list \<Rightarrow> real \<Rightarrow> database" where
  \<comment> \<open>one course with these submissions and this threshold\<close>
  "course_db rows t =
     \<lparr>assignments = rows,
      question_files = [\<lparr>q_course = lit ''CS101'', q_plagiarism_threshold = Some t\<rparr>]\<rparr>"

definition essay :: "byte list" where
  "essay = bytes_of ''cats chase mice''"

text \<open>Two short files: one is stop words only, the other adds a quotation.\<close>

definition quoting_essay :: "byte list" where
  "quoting_essay = bytes_of ''the and \"hello world foo\"''"

definition stop_word_essay :: "byte list" where
  "stop_word_essay = bytes_of ''the and''"

section \<open>Reading a result\<close>

text \<open>
  The report, the stored row and the exception of a result, and two predicates used in the
  statements below.
\<close>

definition report_of :: "exc + report \<times> database \<Rightarrow> report option" where
  "report_of res = (case res of Inl e \<Rightarrow> None | Inr (rep, db') \<Rightarrow> Some rep)"

definition stored_assignment :: "exc + report \<times> database \<Rightarrow> int \<Rightarrow> assignment option" where
  "stored_assignment res i =
     (case res of Inl e \<Rightarrow> None | Inr (rep, db') \<Rightarrow> get_assignment db' i)"

definition error_of :: "exc + 'a \<Rightarrow> exc option" where
  "error_of res = (case res of Inl e \<Rightarrow> Some e | Inr x \<Rightarrow> None)"

definition supported_extension :: "pystr \<Rightarrow> bool" where
  "supported_extension ext = (ext = lit ''.pdf'' \<or> ext = lit ''.docx'' \<or> ext = lit ''.txt'')"

definition max_match_similarity :: "report \<Rightarrow> real" where
  \<comment> \<open>the maximum of the similarities of the matches of a report, 0 without matches\<close>
  "max_match_similarity rep =
     (if r_matches rep = [] then 0 else Max (set (map m_similarity (r_matches rep))))"

section \<open>Properties\<close>

subsection \<open>Auxiliary facts\<close>

lemma round_half_even_of_int: "round_half_even (of_int k) = k"
  by (simp add: round_half_even_def)

lemma decimal_round2_idem: "decimal_round2 (decimal_round2 x) = decimal_round2 x"
  by (simp add: decimal_round2_def round_half_even_of_int)

lemma decimal_round2_0: "decimal_round2 0 = 0"
  by (simp add: decimal_round2_def round_half_even_def)

lemma fold_max_in: "fold max xs (x::real) \<in> insert x (set xs)"
  by (induction xs arbitrary: x) (auto simp: max_def)

lemma max_default_in: "max_default xs d \<in> insert d (set xs)"
  using fold_max_in by (fastforce simp: max_default_def split: list.splits)

lemma max_default_Max:
  assumes "xs \<noteq> []"
  shows "max_default xs d = Max (set xs)"
proof (cases xs)
  case Nil
  with assms show ?thesis by simp
next
  case (Cons a list)
  then show ?thesis using Max.set_eq_fold [of a list] by (simp add: max_default_def)
qed

lemma max_default_matches:
  "max_default (map m_similarity ms) 0
     = (if ms = [] then 0 else Max (set (map m_similarity ms)))"
  using max_default_Max [of "map m_similarity ms" 0] by (simp add: max_default_def)

text \<open>Every similarity of a match is a result of \<open>round(x, 2)\<close>.\<close>

lemma collect_matches_rounded:
  "m \<in> set (collect_matches E amap idx sims) \<Longrightarrow> m_similarity m \<in> range (float_round2 (fp E))"
  by (induction E amap idx sims rule: collect_matches.induct)
     (auto simp: make_match_def Let_def split: option.splits if_splits)

lemma fallback_loop_rounded:
  "m \<in> set (fallback_loop E tw as) \<Longrightarrow> m_similarity m \<in> range (float_round2 (fp E))"
  by (induction E tw as rule: fallback_loop.induct)
     (auto simp: make_match_def Let_def split: sum.splits if_splits)

lemma compare_rounded:
  "m \<in> set (compare_with_assignments E t as er eq)
   \<Longrightarrow> m_similarity m \<in> range (float_round2 (fp E))"
  by (auto simp: compare_with_assignments_def fallback_comparison_def sort_by_similarity_def
      split: prod.splits if_splits sum.splits
      dest: collect_matches_rounded fallback_loop_rounded)

text \<open>
  When \<open>round(x, 2)\<close> leaves its own results and 0 unchanged, it leaves the maximum
  similarity unchanged.
\<close>

lemma max_similarity_fixed:
  assumes idem: "\<And>x. float_round2 (fp E) (float_round2 (fp E) x) = float_round2 (fp E) x"
    and zero: "float_round2 (fp E) 0 = 0"
  shows "float_round2 (fp E)
           (max_default (map m_similarity (compare_with_assignments E t as er eq)) 0)
         = max_default (map m_similarity (compare_with_assignments E t as er eq)) 0"
proof -
  let ?ms = "compare_with_assignments E t as er eq"
  from max_default_in [of "map m_similarity ?ms" 0]
  consider "max_default (map m_similarity ?ms) 0 = 0"
    | m where "m \<in> set ?ms" "max_default (map m_similarity ?ms) 0 = m_similarity m"
    by auto
  then show ?thesis
  proof cases
    case 1
    with zero show ?thesis by simp
  next
    case (2 m)
    from compare_rounded [OF 2(1)] obtain x where "m_similarity m = float_round2 (fp E) x"
      by auto
    with 2(2) idem [of x] show ?thesis by simp
  qed
qed

lemma find_replace_row:
  "find (\<lambda>b. a_id b = i) rows = Some a \<Longrightarrow> a_id a' = i \<Longrightarrow>
   find (\<lambda>b. a_id b = i) (replace_row i a' rows) = Some a'"
  by (induction rows) (auto split: if_splits)

lemma check_external_sources_swallows:
  "googlesearch E = Some search \<Longrightarrow> search query = Inl e \<Longrightarrow>
   check_external_sources E query = Inr []"
  by (simp add: check_external_sources_def)

lemma get_assignment_id: "get_assignment db i = Some a \<Longrightarrow> a_id a = i"
  by (auto simp: get_assignment_def find_Some_iff)

lemma get_assignment_store:
  "get_assignment db i = Some a \<Longrightarrow> a_id a' = i \<Longrightarrow>
   get_assignment (store_assignment db a') i = Some a'"
  by (simp add: get_assignment_def store_assignment_def find_replace_row)

lemmas ext_eval =
  get_file_extension_def after_last_dot_def py_lower_def ascii_lower_def is_ascii_upper_def
  lit_def ascii_tables_def

subsection \<open>The check, case by case\<close>

lemma check_plagiarism_cases:
  assumes "check_plagiarism E db aid er eq = Inr (rep, db')"
  obtains (empty_pool) a where
      "get_assignment db aid = Some a"
      "other_assignments db a aid = []"
      "commit_error E = None"
      "rep = \<lparr>r_assignment_id = a_id a, r_filename = a_filename a, r_plagiarism_percentage = 0,
              r_matches = [], r_external_sources = [], r_threshold = get_threshold db a,
              r_passed = True, r_checked_at = utcnow_iso E\<rparr>"
      "db' = store_assignment db
               (a\<lparr>a_plagiarism_report := Some rep, a_plagiarism_percentage := Some 0,
                  a_status := Checked\<rparr>)"
  | (compared) a raw_text external_sources t matches S where
      "get_assignment db aid = Some a"
      "other_assignments db a aid \<noteq> []"
      "commit_error E = None"
      "convert_to_text E (a_file_data a) (a_filename a) = Inr raw_text"
      "check_external_sources E raw_text = Inr external_sources"
      "get_threshold db a = Some t"
      "matches = compare_with_assignments E (preprocess_document (uni E) raw_text er eq)
                   (other_assignments db a aid) er eq"
      "S = max_default (map m_similarity matches) 0"
      "rep = \<lparr>r_assignment_id = aid, r_filename = a_filename a,
              r_plagiarism_percentage = float_round2 (fp E) S, r_matches = matches,
              r_external_sources = external_sources, r_threshold = Some t,
              r_passed = (S < t), r_checked_at = utcnow_iso E\<rparr>"
      "db' = store_assignment db
               ((if t \<le> S then auto_grade (fp E) a S else a)
                  \<lparr>a_plagiarism_report := Some rep,
                   a_plagiarism_percentage := Some (float_round2 (fp E) S),
                   a_status := Checked\<rparr>)"
proof -
  from assms have body: "check_plagiarism_body E db aid er eq = Inr (rep, db')"
    by (simp add: check_plagiarism_def split: sum.splits)
  then obtain a where a: "get_assignment db aid = Some a"
    by (auto simp: check_plagiarism_body_def split: option.splits)
  show thesis
  proof (cases "other_assignments db a aid = []")
    case True
    with body a have "create_empty_report E db a (get_threshold db a) = Inr (rep, db')"
      by (simp add: check_plagiarism_body_def)
    then show thesis using a True
      by (intro empty_pool [of a]) (auto simp: create_empty_report_def Let_def split: option.splits)
  next
    case False
    from body a False obtain raw_text where
      raw: "convert_to_text E (a_file_data a) (a_filename a) = Inr raw_text"
      by (auto simp: check_plagiarism_body_def Let_def split: sum.splits)
    from body a False raw obtain external_sources where
      ext: "check_external_sources E raw_text = Inr external_sources"
      by (auto simp: check_plagiarism_body_def Let_def split: sum.splits)
    from body a False raw ext obtain t where t: "get_threshold db a = Some t"
      by (auto simp: check_plagiarism_body_def Let_def split: option.splits)
    from body a False raw ext t have commit: "commit_error E = None"
      by (auto simp: check_plagiarism_body_def Let_def split: option.splits)
    define matches where
      "matches = compare_with_assignments E (preprocess_document (uni E) raw_text er eq)
                   (other_assignments db a aid) er eq"
    define S where "S = max_default (map m_similarity matches) 0"
    from body a False raw ext t commit
    have res: "rep = \<lparr>r_assignment_id = aid, r_filename = a_filename a,
              r_plagiarism_percentage = float_round2 (fp E) S, r_matches = matches,
              r_external_sources = external_sources, r_threshold = Some t,
              r_passed = (S < t), r_checked_at = utcnow_iso E\<rparr>"
      and "db' = store_assignment db
               ((if t \<le> S then auto_grade (fp E) a S else a)
                  \<lparr>a_plagiarism_report := Some rep,
                   a_plagiarism_percentage := Some (float_round2 (fp E) S),
                   a_status := Checked\<rparr>)"
      by (auto simp add: check_plagiarism_body_def Let_def matches_def S_def)
    with a False commit raw ext t matches_def S_def show thesis
      by (rule compared [of a raw_text external_sources t matches S])
  qed
qed

lemma check_plagiarism_empty_pool:
  assumes "get_assignment db aid = Some a" "other_assignments db a aid = []" "commit_error E = None"
  shows "check_plagiarism E db aid er eq =
    Inr (\<lparr>r_assignment_id = a_id a, r_filename = a_filename a, r_plagiarism_percentage = 0,
           r_matches = [], r_external_sources = [], r_threshold = get_threshold db a,
           r_passed = True, r_checked_at = utcnow_iso E\<rparr>,
         store_assignment db
           (a\<lparr>a_plagiarism_report :=
                 Some \<lparr>r_assignment_id = a_id a, r_filename = a_filename a,
                       r_plagiarism_percentage = 0, r_matches = [], r_external_sources = [],
                       r_threshold = get_threshold db a, r_passed = True,
                       r_checked_at = utcnow_iso E\<rparr>,
              a_plagiarism_percentage := Some 0, a_status := Checked\<rparr>))"
  using assms
  by (simp add: check_plagiarism_def check_plagiarism_body_def create_empty_report_def Let_def)

lemma sort_by_similarity_desc:
  "sorted_wrt (\<lambda>x y. y \<le> x) (map m_similarity (sort_by_similarity ms))"
proof -
  have "sorted (map (\<lambda>m. - m_similarity m) (sort_key (\<lambda>m. - m_similarity m) ms))"
    by (rule sorted_sort_key)
  then show ?thesis
    by (simp add: sort_by_similarity_def sorted_map sorted_wrt_map)
qed

lemma sort_by_similarity_stable:
  "filter (\<lambda>m. m_similarity m = k) (sort_by_similarity ms) = filter (\<lambda>m. m_similarity m = k) ms"
  using sort_key_stable [of "\<lambda>m. - m_similarity m" "- k" ms]
  by (simp add: sort_by_similarity_def)

lemma prepare_documents_map:
  "prepare_documents E er eq idx as (docs, amap) = (docs', amap') \<Longrightarrow> amap' i = Some a \<Longrightarrow>
   amap i = Some a \<or> (idx \<le> i \<and> i < idx + length as \<and> a = as ! (i - idx))"
proof (induction as arbitrary: idx docs amap)
  case Nil
  then show ?case by simp
next
  case (Cons x rest)
  show ?case
  proof (cases "convert_to_text E (a_file_data x) (a_filename x)")
    case (Inl e)
    with Cons.prems have "prepare_documents E er eq (Suc idx) rest (docs, amap) = (docs', amap')"
      by simp
    from Cons.IH [OF this Cons.prems(2)] show ?thesis
      by (auto simp: nth_Cons')
  next
    case (Inr raw)
    with Cons.prems have
      "prepare_documents E er eq (Suc idx) rest
         (docs @ [preprocess_document (uni E) raw er eq], amap(idx \<mapsto> x)) = (docs', amap')"
      by simp
    from Cons.IH [OF this Cons.prems(2)] show ?thesis
      by (auto simp: nth_Cons' split: if_splits)
  qed
qed

lemma subseq_drop_Suc: "subseq (drop (Suc n) xs) (drop n xs)"
proof -
  have "drop (Suc n) xs = drop 1 (drop n xs)" by simp
  then show ?thesis by (metis suffix_drop suffix_imp_subseq)
qed

lemma collect_matches_subseq:
  assumes "\<And>i a. amap i = Some a \<Longrightarrow> idx0 \<le> i \<and> i < idx0 + length as \<and> a = as ! (i - idx0)"
    and "idx0 \<le> idx"
  shows "subseq (map m_assignment_id (collect_matches E amap idx sims))
           (map a_id (drop (idx - idx0) as))"
  using assms(2)
proof (induction sims arbitrary: idx)
  case Nil
  then show ?case by simp
next
  case (Cons s sims)
  from Cons.prems have le: "idx0 \<le> Suc idx" by simp
  have step: "subseq (map m_assignment_id (collect_matches E amap (Suc idx) sims))
           (map a_id (drop (Suc (idx - idx0)) as))"
    using Cons.IH [OF le] Cons.prems by (simp add: Suc_diff_le)
  have skip: "subseq (map m_assignment_id (collect_matches E amap (Suc idx) sims))
           (map a_id (drop (idx - idx0) as))"
    using step subseq_map [OF subseq_drop_Suc, of a_id "idx - idx0" as]
    by (rule subseq_order.trans)
  show ?case
  proof (cases "amap idx")
    case None
    with skip show ?thesis by simp
  next
    case (Some a)
    from assms(1) [OF Some] Cons.prems have
      lt: "idx - idx0 < length as" and a: "a = as ! (idx - idx0)" by auto
    have "drop (idx - idx0) as = a # drop (Suc (idx - idx0)) as"
      using lt a by (simp add: Cons_nth_drop_Suc)
    with step skip Some show ?thesis
      by (simp add: make_match_def Let_def)
  qed
qed

lemma fallback_loop_subseq:
  "subseq (map m_assignment_id (fallback_loop E tw as)) (map a_id as)"
  by (induction E tw as rule: fallback_loop.induct)
     (auto simp: make_match_def Let_def split: sum.splits)

lemma compare_subseq:
  "subseq (map m_assignment_id (filter (\<lambda>m. m_similarity m = k)
             (compare_with_assignments E t as er eq)))
     (map a_id as)"
proof -
  obtain docs amap where prep:
    "prepare_documents E er eq 1 as ([t], Map.empty) = (docs, amap)"
    by (cases "prepare_documents E er eq 1 as ([t], Map.empty)")
  have inv: "1 \<le> i \<and> i < 1 + length as \<and> a = as ! (i - 1)" if "amap i = Some a" for i a
    using prepare_documents_map [OF prep that] by simp
  have prim: "subseq (map m_assignment_id (collect_matches E amap 1 sims)) (map a_id as)" for sims
    using collect_matches_subseq [of amap 1 as 1 E sims] inv by simp
  have filt: "subseq (map m_assignment_id (filter (\<lambda>m. m_similarity m = k) ms)) (map a_id as)"
    if "subseq (map m_assignment_id ms) (map a_id as)" for ms
    using subseq_map [OF subseq_filter_left, of m_assignment_id "\<lambda>m. m_similarity m = k" ms] that
    by (rule subseq_order.trans)
  show ?thesis
    using prep filt [OF prim] filt [OF fallback_loop_subseq]
    by (auto simp: compare_with_assignments_def fallback_comparison_def sort_by_similarity_stable
        split: sum.splits)
qed

lemma compare_sorted:
  "sorted_wrt (\<lambda>x y. y \<le> x) (map m_similarity (compare_with_assignments E t as er eq))"
  by (auto simp: compare_with_assignments_def fallback_comparison_def sort_by_similarity_desc
      split: prod.splits sum.splits)

subsection \<open>Example runs\<close>

lemma report_of_SomeE:
  assumes "report_of R \<noteq> None"
  obtains rep db' where "R = Inr (rep, db')"
  using assms by (cases R) (auto simp: report_of_def)

lemma convert_txt:
  assumes "get_file_extension (uni E) filename = lit ''.txt''"
    and "decode Utf8 file_data = Some s"
  shows "convert_to_text E file_data filename = Inr s"
  using assms by (simp add: convert_to_text_def lit_def)

lemma demo_env_sel [simp]:
  "uni demo_env = ascii_tables"
  "pdf_pages demo_env d = Inl (Exc OtherException (lit ''EOF marker not found''))"
  "tfidf_cosine demo_env docs = Inl (Exc OtherException (lit ''empty vocabulary''))"
  "commit_error demo_env = None"
  "googlesearch demo_env = Some (\<lambda>q. Inr [])"
  "utcnow_iso demo_env = lit ''2024-05-01T09:00:00''"
  "exc_str demo_env = exc_detail"
  "fp demo_env = exact_floats"
  by (simp_all add: demo_env_def)

lemma scores_env_sel [simp]:
  "uni (scores_env s) = ascii_tables"
  "pdf_pages (scores_env s) d = Inl (Exc OtherException (lit ''EOF marker not found''))"
  "tfidf_cosine (scores_env s) docs = Inr s"
  "commit_error (scores_env s) = None"
  "googlesearch (scores_env s) = Some (\<lambda>q. Inr [])"
  "utcnow_iso (scores_env s) = lit ''2024-05-01T09:00:00''"
  "exc_str (scores_env s) = exc_detail"
  "fp (scores_env s) = exact_floats"
  by (simp_all add: scores_env_def)

lemma exact_floats_sel [simp]:
  "float_mul exact_floats x y = x * y"
  "float_div exact_floats x y = x / y"
  "float_round2 exact_floats = decimal_round2"
  "float_format_2f exact_floats = decimal_format_2f"
  by (simp_all add: exact_floats_def)

lemma submission_sel [simp]:
  "a_id (submission i name data) = i"
  "a_filename (submission i name data) = lit name"
  "a_file_data (submission i name data) = data"
  "a_course (submission i name data) = lit ''CS101''"
  "a_user (submission i name data) = \<lparr>Fname = lit ''Ada'', Lname = None\<rparr>"
  "a_totalmarks (submission i name data) = None"
  "a_obtmarks (submission i name data) = None"
  "a_comment (submission i name data) = None"
  "a_auto_graded (submission i name data) = False"
  by (simp_all add: submission_def)

lemma ext_txt:
  "get_file_extension ascii_tables (lit ''essay.txt'') = lit ''.txt''"
  "get_file_extension ascii_tables (lit ''peer.txt'') = lit ''.txt''"
  "get_file_extension ascii_tables (lit ''carol.txt'') = lit ''.txt''"
  "get_file_extension ascii_tables (lit ''bob.txt'') = lit ''.txt''"
  by (simp_all add: ext_eval)

lemma decode_essay: "decode Utf8 essay = Some (lit ''cats chase mice'')"
  by (simp add: essay_def bytes_of_def lit_def)

lemma decode_stop_word_essay: "decode Utf8 stop_word_essay = Some (lit ''the and'')"
  by (simp add: stop_word_essay_def bytes_of_def lit_def)

lemma decode_quoting_essay:
  "decode Utf8 quoting_essay = Some (lit ''the and \"hello world foo\"'')"
  by (simp add: quoting_essay_def bytes_of_def lit_def)

lemma essay_conv:
  assumes "uni E = ascii_tables"
  shows "convert_to_text E essay (lit ''essay.txt'') = Inr (lit ''cats chase mice'')"
    and "convert_to_text E essay (lit ''carol.txt'') = Inr (lit ''cats chase mice'')"
    and "convert_to_text E essay (lit ''bob.txt'') = Inr (lit ''cats chase mice'')"
    and "convert_to_text E essay (lit ''peer.txt'') = Inr (lit ''cats chase mice'')"
    and "convert_to_text E stop_word_essay (lit ''essay.txt'') = Inr (lit ''the and'')"
    and "convert_to_text E quoting_essay (lit ''bob.txt'')
           = Inr (lit ''the and \"hello world foo\"'')"
  using assms
  by (auto intro!: convert_txt simp: ext_txt decode_essay decode_stop_word_essay
        decode_quoting_essay simp del: decode.simps)

lemma broken_pdf_conv:
  assumes "uni E = ascii_tables"
    and "pdf_pages E (bytes_of ''%PDF-1.4'') = Inl (Exc OtherException (lit ''EOF marker not found''))"
  shows "convert_to_text E (bytes_of ''%PDF-1.4'') (lit ''bob.pdf'')
           = Inl (Exc FileUploadError (lit ''Failed to convert PDF: '' @ exc_str E (Exc OtherException (lit ''EOF marker not found''))))"
  using assms by (simp add: convert_to_text_def convert_pdf_to_text_def ext_eval)

lemma essay_prep:
  "preprocess_document ascii_tables (lit ''cats chase mice'') False False = lit ''cats chase mice''"
  by code_simp

lemma stop_word_prep:
  "preprocess_document ascii_tables (lit ''the and'') False True = lit ''the and''"
  by code_simp

lemma quoting_prep:
  "preprocess_document ascii_tables (lit ''the and \"hello world foo\"'') False True = lit ''the and''"
  by code_simp

lemma user_name_Ada: "py_strip ascii_tables (lit ''Ada'' @ lit '' '') = lit ''Ada''"
  by code_simp

lemmas compare_eval =
  compare_with_assignments_def sort_by_similarity_def make_match_def user_name_Ada
  decimal_round2_def round_half_even_def essay_conv essay_prep

lemmas check_eval =
  check_plagiarism_def check_plagiarism_body_def get_assignment_def other_assignments_def
  get_threshold_def course_db_def check_external_sources_def max_default_def
  decimal_round2_def round_half_even_def store_assignment_def report_of_def stored_assignment_def error_of_def
  create_empty_report_def auto_grade_def Let_def essay_conv essay_prep

lemma hit_compare:
  "compare_with_assignments (scores_env [1 / 2]) (lit ''cats chase mice'')
     [submission 2 ''peer.txt'' essay] False False
   = [\<lparr>m_assignment_id = 2, m_filename = lit ''peer.txt'', m_user_name = lit ''Ada'',
       m_similarity = 50\<rparr>]"
  by (simp add: compare_eval)

lemma tie_compare:
  "compare_with_assignments (scores_env [1, 1]) (lit ''cats chase mice'')
     [submission 3 ''carol.txt'' essay, submission 2 ''bob.txt'' essay] False False
   = [\<lparr>m_assignment_id = 3, m_filename = lit ''carol.txt'', m_user_name = lit ''Ada'',
       m_similarity = 100\<rparr>,
      \<lparr>m_assignment_id = 2, m_filename = lit ''bob.txt'', m_user_name = lit ''Ada'',
       m_similarity = 100\<rparr>]"
  by (simp add: compare_eval)

lemma one_peer_compare:
  "compare_with_assignments (scores_env [1]) (lit ''cats chase mice'')
     [submission 3 ''carol.txt'' essay] False False
   = [\<lparr>m_assignment_id = 3, m_filename = lit ''carol.txt'', m_user_name = lit ''Ada'',
       m_similarity = 100\<rparr>]"
  by (simp add: compare_eval)

lemma skip_prepare:
  "prepare_documents (scores_env [1]) False False 1
     [submission 2 ''bob.pdf'' (bytes_of ''%PDF-1.4''), submission 3 ''carol.txt'' essay]
     ([lit ''cats chase mice''], Map.empty)
   = ([lit ''cats chase mice'', lit ''cats chase mice''],
      [2 \<mapsto> submission 3 ''carol.txt'' essay])"
  by (simp add: broken_pdf_conv essay_conv essay_prep numeral_2_eq_2)

lemma skip_compare:
  "compare_with_assignments (scores_env [1]) (lit ''cats chase mice'')
     [submission 2 ''bob.pdf'' (bytes_of ''%PDF-1.4''), submission 3 ''carol.txt'' essay] False False
   = []"
  by (simp add: compare_with_assignments_def broken_pdf_conv essay_conv essay_prep
        sort_by_similarity_def)

lemma quoting_fallback:
  "fallback_comparison demo_env (lit ''the and'') [submission 2 ''bob.txt'' quoting_essay]
   = [\<lparr>m_assignment_id = 2, m_filename = lit ''bob.txt'', m_user_name = lit ''Ada'',
       m_similarity = 40\<rparr>]"
  by code_simp

lemma quoting_prepare:
  "prepare_documents demo_env False True 1 [submission 2 ''bob.txt'' quoting_essay]
     ([lit ''the and''], Map.empty)
   = ([lit ''the and'', lit ''the and''], [1 \<mapsto> submission 2 ''bob.txt'' quoting_essay])"
  by (simp add: essay_conv quoting_prep)

lemma quoting_compare:
  "compare_with_assignments demo_env (lit ''the and'') [submission 2 ''bob.txt'' quoting_essay]
     False True
   = [\<lparr>m_assignment_id = 2, m_filename = lit ''bob.txt'', m_user_name = lit ''Ada'',
       m_similarity = 40\<rparr>]"
  by (simp add: compare_with_assignments_def essay_conv quoting_prep quoting_fallback)

subsection \<open>Text extractor\<close>

text \<open>
  C9, as the code has it. Whatever makes the extractor fail, the exception is a
  \<open>FileUploadError\<close>: an unsupported extension and a parse failure of a supported
  format raise the same class. They differ in the detail text only: the detail is
  \<open>Unsupported file type: <ext>\<close> exactly when the extension is not one of \<open>.pdf\<close>,
  \<open>.docx\<close>, \<open>.txt\<close>.
\<close>

theorem convert_to_text_error_kind:
  assumes "convert_to_text E file_data filename = Inl e"
  shows "exc_kind e = FileUploadError \<and>
         (\<not> supported_extension (get_file_extension (uni E) filename)
            \<longleftrightarrow> exc_detail e
                 = lit ''Unsupported file type: '' @ get_file_extension (uni E) filename)"
  using assms
  by (auto simp: convert_to_text_def convert_pdf_to_text_def convert_docx_to_text_def Let_def
        supported_extension_def lit_def split: if_splits option.splits sum.splits)

theorem convert_to_text_error_kind_witness:
  "convert_to_text demo_env (bytes_of ''%PDF-1.4'') (lit ''essay.pdf'')
     = Inl (Exc FileUploadError (lit ''Failed to convert PDF: EOF marker not found''))
   \<and> exc_kind (Exc FileUploadError (lit ''Failed to convert PDF: EOF marker not found''))
       = FileUploadError
   \<and> supported_extension (get_file_extension (uni demo_env) (lit ''essay.pdf''))"
proof -
  have run: "convert_to_text demo_env (bytes_of ''%PDF-1.4'') (lit ''essay.pdf'')
     = Inl (Exc FileUploadError (lit ''Failed to convert PDF: EOF marker not found''))"
    by (simp add: convert_to_text_def convert_pdf_to_text_def demo_env_def ext_eval)
  have ext: "supported_extension (get_file_extension (uni demo_env) (lit ''essay.pdf''))"
    by (simp add: supported_extension_def demo_env_def ext_eval)
  from convert_to_text_error_kind [OF run] run ext show ?thesis by simp
qed

text \<open>
  C9, as the claim states it, fails: a file with an unsupported extension and a PDF that
  the reader rejects both end in a \<open>FileUploadError\<close>.
\<close>

theorem same_error_kind_counterexample:
  "map_option exc_kind (error_of (convert_to_text demo_env (bytes_of ''%PDF-1.4'') (lit ''essay.exe'')))
     = Some FileUploadError
   \<and> map_option exc_kind (error_of (convert_to_text demo_env (bytes_of ''%PDF-1.4'') (lit ''essay.pdf'')))
     = Some FileUploadError"
  by (simp add: convert_to_text_def convert_pdf_to_text_def demo_env_def ext_eval error_of_def)

text \<open>
  C10. A file whose extension is \<open>.txt\<close> is always extracted: when UTF-8 fails, Latin-1,
  the first encoding of the fallback list, decodes every byte sequence, so the error
  \<open>Unable to decode text file\<close> is never raised.
\<close>

theorem txt_extraction_never_fails:
  assumes "get_file_extension (uni E) filename = lit ''.txt''"
  shows "\<exists>s. convert_to_text E file_data filename = Inr s"
  using assms by (simp add: convert_to_text_def lit_def split: option.split)

theorem txt_extraction_never_fails_witness:
  "get_file_extension (uni demo_env) (lit ''notes.TXT'') = lit ''.txt''
   \<and> convert_to_text demo_env [0x63, 0x61, 0x66, 0xE9] (lit ''notes.TXT'') = Inr [99, 97, 102, 233]"
proof -
  have ext: "get_file_extension (uni demo_env) (lit ''notes.TXT'') = lit ''.txt''"
    by (simp add: demo_env_def ext_eval)
  from txt_extraction_never_fails [OF ext, of "[0x63, 0x61, 0x66, 0xE9]"]
  obtain s where s: "convert_to_text demo_env [0x63, 0x61, 0x66, 0xE9] (lit ''notes.TXT'') = Inr s"
    by blast
  have "convert_to_text demo_env [0x63, 0x61, 0x66, 0xE9] (lit ''notes.TXT'') = Inr [99, 97, 102, 233]"
    by (simp add: convert_to_text_def demo_env_def ext_eval is_cont_def)
  with ext s show ?thesis by simp
qed

subsection \<open>Plagiarism service\<close>

text \<open>
  C2. In every report that a check produces, \<open>plagiarism_percentage\<close> is the maximum of the
  similarities of the matches of the report, and 0 when there is no match. The code
  computes \<open>round(S, 2)\<close> of that maximum \<open>S\<close>, and every similarity of a match is itself a
  result of \<open>round(x, 2)\<close>; the two hypotheses on the interpreter say that \<open>round(x, 2)\<close>
  leaves its own results and 0.0 unchanged.
\<close>

theorem plagiarism_percentage_is_max:
  assumes "check_plagiarism E db aid er eq = Inr (rep, db')"
    and idem: "\<And>x. float_round2 (fp E) (float_round2 (fp E) x) = float_round2 (fp E) x"
    and zero: "float_round2 (fp E) 0 = 0"
  shows "r_plagiarism_percentage rep = max_match_similarity rep"
  using assms(1)
proof (cases rule: check_plagiarism_cases)
  case (empty_pool a)
  then show ?thesis by (simp add: max_match_similarity_def)
next
  case (compared a raw_text external_sources t matches S)
  have S: "S = max_match_similarity rep"
    using compared(8,9) by (simp add: max_match_similarity_def max_default_matches)
  have "float_round2 (fp E) S = S"
    unfolding compared(7,8) using idem zero by (rule max_similarity_fixed)
  with S compared(9) show ?thesis by simp
qed

theorem plagiarism_percentage_is_max_witness:
  "(\<forall>x. float_round2 (fp (scores_env [1 / 2])) (float_round2 (fp (scores_env [1 / 2])) x)
         = float_round2 (fp (scores_env [1 / 2])) x)
   \<and> float_round2 (fp (scores_env [1 / 2])) 0 = 0
   \<and> (\<exists>rep db'.
        check_plagiarism (scores_env [1 / 2])
          (course_db [submission 1 ''essay.txt'' essay, submission 2 ''peer.txt'' essay] 50)
          1 False False = Inr (rep, db')
        \<and> map m_similarity (r_matches rep) = [50]
        \<and> max_match_similarity rep = 50
        \<and> r_plagiarism_percentage rep = 50)"
proof -
  let ?E = "scores_env [1 / 2]"
  let ?R = "check_plagiarism ?E
       (course_db [submission 1 ''essay.txt'' essay, submission 2 ''peer.txt'' essay] 50)
       1 False False"
  have idem: "float_round2 (fp ?E) (float_round2 (fp ?E) x) = float_round2 (fp ?E) x" for x
    by (simp add: decimal_round2_idem)
  have zero: "float_round2 (fp ?E) 0 = 0"
    by (simp add: decimal_round2_0)
  have "report_of ?R \<noteq> None" by (simp add: check_eval hit_compare)
  then obtain rep db' where run: "?R = Inr (rep, db')" by (rule report_of_SomeE)
  have "map_option (map m_similarity \<circ> r_matches) (report_of ?R) = Some [50]"
    by (simp add: check_eval hit_compare)
  with run have sims: "map m_similarity (r_matches rep) = [50]" by (simp add: report_of_def)
  then have S: "max_match_similarity rep = 50"
    by (auto simp: max_match_similarity_def)
  with plagiarism_percentage_is_max [OF run idem zero]
  have "r_plagiarism_percentage rep = 50" by simp
  with run sims S idem zero show ?thesis by auto
qed

text \<open>
  C1, as the code has it. In a report with threshold \<open>t\<close>, \<open>passed\<close> is the strict comparison
  of the maximum of the similarities of its matches (0 when there is no match) with \<open>t\<close>,
  provided the comparison pool is not empty or \<open>t\<close> is positive. (With an empty pool the
  report says \<open>passed\<close> whatever the threshold: see C3.)
\<close>

theorem passed_iff_below_threshold:
  assumes "check_plagiarism E db aid er eq = Inr (rep, db')"
    and "get_assignment db aid = Some a"
    and "r_threshold rep = Some t"
    and "other_assignments db a aid \<noteq> [] \<or> 0 < t"
  shows "r_passed rep = (max_match_similarity rep < t)"
  using assms(1)
proof (cases rule: check_plagiarism_cases)
  case (empty_pool a0)
  with assms show ?thesis by (auto simp: max_match_similarity_def)
next
  case (compared a0 raw_text external_sources t0 matches S)
  have S: "S = max_match_similarity rep"
    using compared(8,9) by (simp add: max_match_similarity_def max_default_matches)
  have passed: "r_passed rep = (S < t0)" using compared(9) by simp
  have "t0 = t" using compared(9) assms(3) by simp
  with S passed show ?thesis by simp
qed

theorem passed_iff_below_threshold_witness:
  "\<exists>rep db'.
     check_plagiarism (scores_env [1 / 2])
       (course_db [submission 1 ''essay.txt'' essay, submission 2 ''peer.txt'' essay] 50)
       1 False False = Inr (rep, db')
     \<and> get_assignment
         (course_db [submission 1 ''essay.txt'' essay, submission 2 ''peer.txt'' essay] 50) 1
        = Some (submission 1 ''essay.txt'' essay)
     \<and> r_threshold rep = Some 50
     \<and> other_assignments
         (course_db [submission 1 ''essay.txt'' essay, submission 2 ''peer.txt'' essay] 50)
         (submission 1 ''essay.txt'' essay) 1 \<noteq> []
     \<and> max_match_similarity rep = 50
     \<and> \<not> r_passed rep"
proof -
  let ?db = "course_db [submission 1 ''essay.txt'' essay, submission 2 ''peer.txt'' essay] 50"
  let ?R = "check_plagiarism (scores_env [1 / 2]) ?db 1 False False"
  have "report_of ?R \<noteq> None" by (simp add: check_eval hit_compare)
  then obtain rep db' where run: "?R = Inr (rep, db')" by (rule report_of_SomeE)
  have ga: "get_assignment ?db 1 = Some (submission 1 ''essay.txt'' essay)"
    by (simp add: get_assignment_def course_db_def)
  have pool: "other_assignments ?db (submission 1 ''essay.txt'' essay) 1 \<noteq> []"
    by (simp add: other_assignments_def course_db_def)
  have "map_option r_threshold (report_of ?R) = Some (Some 50)"
    by (simp add: check_eval hit_compare)
  with run have thr: "r_threshold rep = Some 50" by (simp add: report_of_def)
  have "map_option (map m_similarity \<circ> r_matches) (report_of ?R) = Some [50]"
    by (simp add: check_eval hit_compare)
  with run have "map m_similarity (r_matches rep) = [50]" by (simp add: report_of_def)
  then have S: "max_match_similarity rep = 50"
    by (auto simp: max_match_similarity_def)
  from passed_iff_below_threshold [OF run ga thr disjI1 [OF pool]] S
  have "\<not> r_passed rep" by simp
  with run ga thr pool S show ?thesis by auto
qed

text \<open>
  C1, as the claim states it, fails for an empty pool and threshold 0: the report says
  \<open>passed\<close> although it has no match and percentage 0, which is not below the threshold 0.
\<close>

theorem passed_with_zero_threshold_counterexample:
  "map_option r_passed
     (report_of (check_plagiarism demo_env (course_db [submission 1 ''essay.txt'' essay] 0)
                   1 False False)) = Some True
   \<and> map_option r_plagiarism_percentage
     (report_of (check_plagiarism demo_env (course_db [submission 1 ''essay.txt'' essay] 0)
                   1 False False)) = Some 0
   \<and> map_option max_match_similarity
     (report_of (check_plagiarism demo_env (course_db [submission 1 ''essay.txt'' essay] 0)
                   1 False False)) = Some 0
   \<and> map_option r_threshold
     (report_of (check_plagiarism demo_env (course_db [submission 1 ''essay.txt'' essay] 0)
                   1 False False)) = Some (Some 0)"
  by (simp add: check_eval max_match_similarity_def)

text \<open>
  C3. When the comparison pool is empty (and the target exists and the commit succeeds) the
  check returns a report with percentage 0, no matches, \<open>passed\<close> and no external sources;
  the stored row holds that report, percentage 0 and status \<open>Checked\<close>; and the search
  function plays no part: the result is the same whatever it is, also when it is missing.
\<close>

theorem empty_pool_report:
  assumes "get_assignment db aid = Some a"
    and "other_assignments db a aid = []"
    and "commit_error E = None"
  shows "\<exists>rep db'.
           check_plagiarism E db aid er eq = Inr (rep, db')
           \<and> r_plagiarism_percentage rep = 0 \<and> r_matches rep = [] \<and> r_passed rep
           \<and> r_external_sources rep = []
           \<and> get_assignment db' aid
               = Some (a\<lparr>a_plagiarism_report := Some rep, a_plagiarism_percentage := Some 0,
                          a_status := Checked\<rparr>)
           \<and> (\<forall>g. check_plagiarism (E\<lparr>googlesearch := g\<rparr>) db aid er eq = Inr (rep, db'))"
proof -
  have id: "a_id a = aid" using assms(1) by (rule get_assignment_id)
  have "commit_error (E\<lparr>googlesearch := g\<rparr>) = None" for g using assms(3) by simp
  from check_plagiarism_empty_pool [OF assms(1,2) this]
       check_plagiarism_empty_pool [OF assms]
       get_assignment_store [OF assms(1)] id
  show ?thesis by simp
qed

theorem empty_pool_report_witness:
  "get_assignment (course_db [submission 1 ''essay.txt'' essay] 40) 1
     = Some (submission 1 ''essay.txt'' essay)
   \<and> other_assignments (course_db [submission 1 ''essay.txt'' essay] 40)
       (submission 1 ''essay.txt'' essay) 1 = []
   \<and> commit_error demo_env = None
   \<and> (\<exists>rep db'.
        check_plagiarism demo_env (course_db [submission 1 ''essay.txt'' essay] 40) 1 False True
          = Inr (rep, db')
        \<and> r_plagiarism_percentage rep = 0 \<and> r_matches rep = [] \<and> r_passed rep
        \<and> r_external_sources rep = []
        \<and> map_option a_status (get_assignment db' 1) = Some Checked
        \<and> check_plagiarism (demo_env\<lparr>googlesearch := None\<rparr>)
            (course_db [submission 1 ''essay.txt'' essay] 40) 1 False True = Inr (rep, db'))"
proof -
  let ?db = "course_db [submission 1 ''essay.txt'' essay] 40"
  have ga: "get_assignment ?db 1 = Some (submission 1 ''essay.txt'' essay)"
    by (simp add: get_assignment_def course_db_def)
  have pool: "other_assignments ?db (submission 1 ''essay.txt'' essay) 1 = []"
    by (simp add: other_assignments_def course_db_def)
  have commit: "commit_error demo_env = None" by simp
  from empty_pool_report [OF ga pool commit, of False True]
  obtain rep db' where
    "check_plagiarism demo_env ?db 1 False True = Inr (rep, db')"
    "r_plagiarism_percentage rep = 0" "r_matches rep = []" "r_passed rep"
    "r_external_sources rep = []"
    "get_assignment db' 1
       = Some (submission 1 ''essay.txt'' essay
                 \<lparr>a_plagiarism_report := Some rep, a_plagiarism_percentage := Some 0,
                  a_status := Checked\<rparr>)"
    "\<forall>g. check_plagiarism (demo_env\<lparr>googlesearch := g\<rparr>) ?db 1 False True = Inr (rep, db')"
    by blast
  with ga pool commit show ?thesis by auto
qed

text \<open>
  C5, as the code has it. Let \<open>S\<close> be the maximum of the similarities of the matches of the
  report (0 when there is no match). Provided the comparison pool is not empty or the
  threshold \<open>t\<close> is positive: when \<open>S\<close> reaches \<open>t\<close> the stored row has total marks 100,
  obtained marks 0, \<open>auto_graded\<close> and the comment with \<open>S\<close> in the format \<open>.2f\<close>; below \<open>t\<close>
  the four grading fields are those of the row before the check.
\<close>

theorem auto_grade_policy:
  assumes "check_plagiarism E db aid er eq = Inr (rep, db')"
    and "get_assignment db aid = Some a"
    and "r_threshold rep = Some t"
    and "other_assignments db a aid \<noteq> [] \<or> 0 < t"
  shows "\<exists>a'. get_assignment db' aid = Some a'
           \<and> (if t \<le> max_match_similarity rep
               then a_totalmarks a' = Some 100 \<and> a_obtmarks a' = Some 0 \<and> a_auto_graded a'
                    \<and> a_comment a'
                        = Some (lit ''Automatic Grade: 0 (Plagiarism detected: ''
                                @ float_format_2f (fp E) (max_match_similarity rep)
                                @ lit ''%)'')
               else a_totalmarks a' = a_totalmarks a \<and> a_obtmarks a' = a_obtmarks a
                    \<and> a_auto_graded a' = a_auto_graded a \<and> a_comment a' = a_comment a)"
  using assms(1)
proof (cases rule: check_plagiarism_cases)
  case (empty_pool a0)
  with assms have a0: "a0 = a" and t: "0 < t" by auto
  have id: "a_id a = aid" using assms(2) by (rule get_assignment_id)
  from empty_pool(5) get_assignment_store [OF assms(2), of "a\<lparr>a_plagiarism_report := Some rep, a_plagiarism_percentage := Some 0,
                  a_status := Checked\<rparr>"] id a0
  have "get_assignment db' aid = Some (a\<lparr>a_plagiarism_report := Some rep, a_plagiarism_percentage := Some 0,
                  a_status := Checked\<rparr>)" by simp
  with t empty_pool(4) show ?thesis by (simp add: max_match_similarity_def)
next
  case (compared a0 raw_text external_sources t0 matches S)
  with assms have a0: "a0 = a" and t0: "t0 = t" by auto
  have id: "a_id a = aid" using assms(2) by (rule get_assignment_id)
  have S: "max_match_similarity rep = S"
    using compared(8,9) by (simp add: max_match_similarity_def max_default_matches)
  let ?a' = "(if t \<le> S then auto_grade (fp E) a S else a)
                  \<lparr>a_plagiarism_report := Some rep,
                   a_plagiarism_percentage := Some (float_round2 (fp E) S),
                   a_status := Checked\<rparr>"
  have "a_id ?a' = aid" using id by (simp add: auto_grade_def)
  from get_assignment_store [OF assms(2) this] compared(10) a0 t0
  have "get_assignment db' aid = Some ?a'" by (cases "t \<le> S") simp_all
  with S show ?thesis by (simp add: auto_grade_def)
qed

theorem auto_grade_policy_witness:
  "\<exists>rep db'.
     check_plagiarism (scores_env [1 / 2])
       (course_db [submission 1 ''essay.txt'' essay, submission 2 ''peer.txt'' essay] 50)
       1 False False = Inr (rep, db')
     \<and> get_assignment
         (course_db [submission 1 ''essay.txt'' essay, submission 2 ''peer.txt'' essay] 50) 1
        = Some (submission 1 ''essay.txt'' essay)
     \<and> r_threshold rep = Some 50
     \<and> other_assignments
         (course_db [submission 1 ''essay.txt'' essay, submission 2 ''peer.txt'' essay] 50)
         (submission 1 ''essay.txt'' essay) 1 \<noteq> []
     \<and> max_match_similarity rep = 50
     \<and> map_option a_totalmarks (get_assignment db' 1) = Some (Some 100)
     \<and> map_option a_obtmarks (get_assignment db' 1) = Some (Some 0)
     \<and> map_option a_auto_graded (get_assignment db' 1) = Some True
     \<and> map_option a_comment (get_assignment db' 1)
        = Some (Some (lit ''Automatic Grade: 0 (Plagiarism detected: 50.00%)''))"
proof -
  let ?db = "course_db [submission 1 ''essay.txt'' essay, submission 2 ''peer.txt'' essay] 50"
  let ?R = "check_plagiarism (scores_env [1 / 2]) ?db 1 False False"
  have "report_of ?R \<noteq> None" by (simp add: check_eval hit_compare)
  then obtain rep db' where run: "?R = Inr (rep, db')" by (rule report_of_SomeE)
  have ga: "get_assignment ?db 1 = Some (submission 1 ''essay.txt'' essay)"
    by (simp add: get_assignment_def course_db_def)
  have pool: "other_assignments ?db (submission 1 ''essay.txt'' essay) 1 \<noteq> []"
    by (simp add: other_assignments_def course_db_def)
  have "map_option r_threshold (report_of ?R) = Some (Some 50)"
    by (simp add: check_eval hit_compare)
  with run have thr: "r_threshold rep = Some 50" by (simp add: report_of_def)
  have "map_option (map m_similarity \<circ> r_matches) (report_of ?R) = Some [50]"
    by (simp add: check_eval hit_compare)
  with run have "map m_similarity (r_matches rep) = [50]" by (simp add: report_of_def)
  then have S: "max_match_similarity rep = 50"
    by (auto simp: max_match_similarity_def)
  have fmt: "decimal_format_2f 50 = lit ''50.00''" by code_simp
  from auto_grade_policy [OF run ga thr disjI1 [OF pool]] S
  obtain a' where "get_assignment db' 1 = Some a'"
    "a_totalmarks a' = Some 100" "a_obtmarks a' = Some 0" "a_auto_graded a'"
    "a_comment a' = Some (lit ''Automatic Grade: 0 (Plagiarism detected: ''
                                @ decimal_format_2f 50 @ lit ''%)'')"
    by auto
  with run ga thr pool S fmt show ?thesis by (auto simp: lit_def)
qed

text \<open>
  C5, as the claim states it, fails for an empty pool and threshold 0: the percentage 0
  reaches the threshold, and the grading fields of the stored row are still unset.
\<close>

theorem no_auto_grade_with_zero_threshold_counterexample:
  "map_option r_plagiarism_percentage
     (report_of (check_plagiarism demo_env (course_db [submission 1 ''essay.txt'' essay] 0)
                   1 False False)) = Some 0
   \<and> map_option max_match_similarity
     (report_of (check_plagiarism demo_env (course_db [submission 1 ''essay.txt'' essay] 0)
                   1 False False)) = Some 0
   \<and> map_option r_threshold
     (report_of (check_plagiarism demo_env (course_db [submission 1 ''essay.txt'' essay] 0)
                   1 False False)) = Some (Some 0)
   \<and> map_option a_totalmarks
     (stored_assignment (check_plagiarism demo_env (course_db [submission 1 ''essay.txt'' essay] 0)
                   1 False False) 1) = Some None
   \<and> map_option a_obtmarks
     (stored_assignment (check_plagiarism demo_env (course_db [submission 1 ''essay.txt'' essay] 0)
                   1 False False) 1) = Some None
   \<and> map_option a_auto_graded
     (stored_assignment (check_plagiarism demo_env (course_db [submission 1 ''essay.txt'' essay] 0)
                   1 False False) 1) = Some False
   \<and> map_option a_comment
     (stored_assignment (check_plagiarism demo_env (course_db [submission 1 ''essay.txt'' essay] 0)
                   1 False False) 1) = Some None"
  by (simp add: check_eval max_match_similarity_def)

text \<open>
  C6, as the code has it. The matches of a report are in descending order of similarity, and
  the sort is stable: the matches of one similarity \<open>k\<close> stand in the order of their peers in
  the comparison pool (their ids are a subsequence of the ids of the pool), whatever the
  ids are.
\<close>

theorem matches_sorted_stable:
  assumes "check_plagiarism E db aid er eq = Inr (rep, db')"
    and "get_assignment db aid = Some a"
  shows "sorted_wrt (\<lambda>x y. y \<le> x) (map m_similarity (r_matches rep))
         \<and> subseq (map m_assignment_id (filter (\<lambda>m. m_similarity m = k) (r_matches rep)))
              (map a_id (other_assignments db a aid))"
  using assms(1)
proof (cases rule: check_plagiarism_cases)
  case (empty_pool a0)
  then show ?thesis by simp
next
  case (compared a0 raw_text external_sources t matches S)
  with assms(2) have "a0 = a" by simp
  with compared(7,9) show ?thesis
    by (simp add: compare_sorted compare_subseq)
qed

theorem matches_sorted_stable_witness:
  "\<exists>rep db'.
     check_plagiarism (scores_env [1, 1])
       (course_db [submission 1 ''essay.txt'' essay, submission 3 ''carol.txt'' essay,
                   submission 2 ''bob.txt'' essay] 40)
       1 False False = Inr (rep, db')
     \<and> get_assignment
         (course_db [submission 1 ''essay.txt'' essay, submission 3 ''carol.txt'' essay,
                     submission 2 ''bob.txt'' essay] 40) 1
        = Some (submission 1 ''essay.txt'' essay)
     \<and> map m_similarity (r_matches rep) = [100, 100]
     \<and> sorted_wrt (\<lambda>x y. y \<le> x) (map m_similarity (r_matches rep))
     \<and> subseq (map m_assignment_id (filter (\<lambda>m. m_similarity m = 100) (r_matches rep)))
          (map a_id
             (other_assignments
                (course_db [submission 1 ''essay.txt'' essay, submission 3 ''carol.txt'' essay,
                            submission 2 ''bob.txt'' essay] 40)
                (submission 1 ''essay.txt'' essay) 1))"
proof -
  let ?db = "course_db [submission 1 ''essay.txt'' essay, submission 3 ''carol.txt'' essay,
                   submission 2 ''bob.txt'' essay] 40"
  let ?R = "check_plagiarism (scores_env [1, 1]) ?db 1 False False"
  have "report_of ?R \<noteq> None" by (simp add: check_eval tie_compare)
  then obtain rep db' where run: "?R = Inr (rep, db')" by (rule report_of_SomeE)
  have ga: "get_assignment ?db 1 = Some (submission 1 ''essay.txt'' essay)"
    by (simp add: get_assignment_def course_db_def)
  have "map_option (map m_similarity \<circ> r_matches) (report_of ?R) = Some [100, 100]"
    by (simp add: check_eval tie_compare)
  with run have sims: "map m_similarity (r_matches rep) = [100, 100]" by (simp add: report_of_def)
  from matches_sorted_stable [OF run ga, of 100] run ga sims show ?thesis by auto
qed

text \<open>
  C6, as the claim states it, fails: when the pool holds peer 3 before peer 2 and both
  score the same, the report lists 3 before 2.
\<close>

theorem ties_in_pool_order_counterexample:
  "map_option (map m_assignment_id \<circ> r_matches)
     (report_of
        (check_plagiarism (scores_env [1, 1])
           (course_db [submission 1 ''essay.txt'' essay, submission 3 ''carol.txt'' essay,
                       submission 2 ''bob.txt'' essay] 40)
           1 False False)) = Some [3, 2]
   \<and> map_option (map m_similarity \<circ> r_matches)
     (report_of
        (check_plagiarism (scores_env [1, 1])
           (course_db [submission 1 ''essay.txt'' essay, submission 3 ''carol.txt'' essay,
                       submission 2 ''bob.txt'' essay] 40)
           1 False False)) = Some [100, 100]"
  by (simp add: check_eval tie_compare)

text \<open>
  C7 fails on the code. The pool is a PDF that the reader rejects (peer 2) followed by a
  copy of the target (peer 3), and the vectorizer scores the copy 1.0. The skipped peer
  leaves \<open>documents\<close> with one peer text and \<open>assignment_map\<close> with the key 2 only, so the
  score at position 1 finds no peer: the report has no match, 0 percent and \<open>passed\<close>.
  Without the broken file the same copy is reported at 100 percent.
\<close>

theorem skipped_peer_loses_match:
  "prepare_documents (scores_env [1]) False False 1
     [submission 2 ''bob.pdf'' (bytes_of ''%PDF-1.4''), submission 3 ''carol.txt'' essay]
     ([lit ''cats chase mice''], Map.empty)
   = ([lit ''cats chase mice'', lit ''cats chase mice''],
      [2 \<mapsto> submission 3 ''carol.txt'' essay])
   \<and> map_option r_matches
       (report_of
          (check_plagiarism (scores_env [1])
             (course_db [submission 1 ''essay.txt'' essay,
                         submission 2 ''bob.pdf'' (bytes_of ''%PDF-1.4''),
                         submission 3 ''carol.txt'' essay] 40)
             1 False False)) = Some []
   \<and> map_option r_plagiarism_percentage
       (report_of
          (check_plagiarism (scores_env [1])
             (course_db [submission 1 ''essay.txt'' essay,
                         submission 2 ''bob.pdf'' (bytes_of ''%PDF-1.4''),
                         submission 3 ''carol.txt'' essay] 40)
             1 False False)) = Some 0
   \<and> map_option r_passed
       (report_of
          (check_plagiarism (scores_env [1])
             (course_db [submission 1 ''essay.txt'' essay,
                         submission 2 ''bob.pdf'' (bytes_of ''%PDF-1.4''),
                         submission 3 ''carol.txt'' essay] 40)
             1 False False)) = Some True
   \<and> map_option (map m_similarity \<circ> r_matches)
       (report_of
          (check_plagiarism (scores_env [1])
             (course_db [submission 1 ''essay.txt'' essay,
                         submission 3 ''carol.txt'' essay] 40)
             1 False False)) = Some [100]"
  using skip_prepare by (simp add: check_eval skip_compare one_peer_compare)

text \<open>
  C8 fails on the code. When the \<open>googlesearch\<close> package cannot be imported, the lookup
  raises \<open>UnboundLocalError\<close> for every environment and text, and a check with a non-empty
  pool ends in \<open>PlagiarismCheckError\<close> with no report.
\<close>

theorem missing_search_package_aborts_check:
  "check_external_sources (E\<lparr>googlesearch := None\<rparr>) text
     = Inl (Exc UnboundLocalError
              (lit ''cannot access local variable 'RemoteDisconnected' where it is not associated with a value''))
   \<and> map_option exc_kind
       (error_of
          (check_plagiarism (scores_env [1]\<lparr>googlesearch := None\<rparr>)
             (course_db [submission 1 ''essay.txt'' essay, submission 3 ''carol.txt'' essay] 40)
             1 False False)) = Some PlagiarismCheckError
   \<and> report_of
        (check_plagiarism (scores_env [1]\<lparr>googlesearch := None\<rparr>)
           (course_db [submission 1 ''essay.txt'' essay, submission 3 ''carol.txt'' essay] 40)
           1 False False) = None"
  by (simp add: check_eval)

text \<open>
  C4 fails on the code. The check excludes quotes; target and peer are then the same
  prepared text \<open>the and\<close>, and the vectorizer fails on it. The fallback extracts the peer
  again and normalizes it without the flags, so the quotation counts: the similarity
  reported is 40 where the prepared corpus gives 100.
\<close>

theorem fallback_ignores_exclusion_flags:
  "preprocess_document (uni demo_env) (lit ''the and'') False True = lit ''the and''
   \<and> prepare_documents demo_env False True 1 [submission 2 ''bob.txt'' quoting_essay]
       ([lit ''the and''], Map.empty)
     = ([lit ''the and'', lit ''the and''], [1 \<mapsto> submission 2 ''bob.txt'' quoting_essay])
   \<and> map m_similarity
       (compare_with_assignments demo_env (lit ''the and'')
          [submission 2 ''bob.txt'' quoting_essay] False True)
     = [40]
   \<and> map_option (map m_similarity \<circ> r_matches)
       (report_of
          (check_plagiarism demo_env
             (course_db [submission 1 ''essay.txt'' stop_word_essay,
                         submission 2 ''bob.txt'' quoting_essay] 40)
             1 False True)) = Some [40]
   \<and> map_option r_passed
       (report_of
          (check_plagiarism demo_env
             (course_db [submission 1 ''essay.txt'' stop_word_essay,
                         submission 2 ''bob.txt'' quoting_essay] 40)
             1 False True)) = Some False"
  using quoting_prepare by (simp add: check_eval stop_word_prep quoting_compare)

end
